theory Spec2Isabelle
  imports Main
begin

section \<open>The Python runtime, as far as the script uses it\<close>

text \<open>
  The script \<^verbatim>\<open>jenkins-agent-automation.py\<close> is a sequence of calls into the
  outside world (HTTP, the file system, subprocesses, SMTP, logging). A function of the
  script is modelled as a function that returns the list of the effects it performed, in
  order, together with the way it ended. What the outside world answers is an input: the
  record \<open>world\<close> below holds one answer for each call site of the script.
\<close>

subsection \<open>Exceptions\<close>

text \<open>
  \<^verbatim>\<open>SystemExit\<close> carries the argument it was raised with: a message (the
  interpreter prints it and exits with status 1) or an integer status.
  The exception classes are the ones the handlers of the script tell apart:
  \<^verbatim>\<open>requests.exceptions.RequestException\<close> (a subclass of \<^verbatim>\<open>OSError\<close>),
  other \<^verbatim>\<open>OSError\<close>s, every other subclass of \<^verbatim>\<open>Exception\<close>, and the two
  classes outside \<^verbatim>\<open>Exception\<close>. The string is \<^verbatim>\<open>str(e)\<close>.
\<close>

datatype exit_arg = ExitMsg string | ExitCode int

datatype exn =
    RequestException string
  | OSError string
  | OtherError string
  | SystemExit exit_arg
  | KeyboardInterrupt

fun is_RequestException :: "exn \<Rightarrow> bool" where
  "is_RequestException (RequestException m) = True"
| "is_RequestException (OSError m) = False"
| "is_RequestException (OtherError m) = False"
| "is_RequestException (SystemExit a) = False"
| "is_RequestException KeyboardInterrupt = False"

fun is_OSError :: "exn \<Rightarrow> bool" where
  "is_OSError (RequestException m) = True"
| "is_OSError (OSError m) = True"
| "is_OSError (OtherError m) = False"
| "is_OSError (SystemExit a) = False"
| "is_OSError KeyboardInterrupt = False"

fun is_Exception :: "exn \<Rightarrow> bool" where
  "is_Exception (RequestException m) = True"
| "is_Exception (OSError m) = True"
| "is_Exception (OtherError m) = True"
| "is_Exception (SystemExit a) = False"
| "is_Exception KeyboardInterrupt = False"

fun is_KeyboardInterrupt :: "exn \<Rightarrow> bool" where
  "is_KeyboardInterrupt (RequestException m) = False"
| "is_KeyboardInterrupt (OSError m) = False"
| "is_KeyboardInterrupt (OtherError m) = False"
| "is_KeyboardInterrupt (SystemExit a) = False"
| "is_KeyboardInterrupt KeyboardInterrupt = True"

subsection \<open>Formatting\<close>

text \<open>\<^verbatim>\<open>str\<close> of an integer, as an f-string inserts it.\<close>

fun str_nat :: "nat \<Rightarrow> string" where
  "str_nat n =
     (if n < 10 then [''0123456789'' ! n]
      else str_nat (n div 10) @ [''0123456789'' ! (n mod 10)])"

declare str_nat.simps [simp del]

definition str_int :: "int \<Rightarrow> string" where
  "str_int i = (if i < 0 then ''-'' @ str_nat (nat (- i)) else str_nat (nat i))"

text \<open>\<^verbatim>\<open>str(e)\<close> of an exception.\<close>

fun str_exn :: "exn \<Rightarrow> string" where
  "str_exn (RequestException m) = m"
| "str_exn (OSError m) = m"
| "str_exn (OtherError m) = m"
| "str_exn (SystemExit (ExitMsg m)) = m"
| "str_exn (SystemExit (ExitCode n)) = str_int n"
| "str_exn KeyboardInterrupt = []"

text \<open>\<^verbatim>\<open>s.endswith('/')\<close> and the line feed of a triple-quoted string.\<close>

definition endswith_slash :: "string \<Rightarrow> bool" where
  "endswith_slash s = (s \<noteq> [] \<and> last s = CHR ''/'')"

abbreviation LF :: char where
  "LF \<equiv> CHR 0x0A"

text \<open>A name between single quotes, as in \<^verbatim>\<open>f"Agent '{agent_name}' ..."\<close>.\<close>

abbreviation quoted :: "string \<Rightarrow> string" where
  "quoted s \<equiv> CHR 0x27 # s @ [CHR 0x27]"

subsection \<open>Effects and results\<close>

datatype smtp_stage = Connect | StartTls | Login | Sendmail | Quit

text \<open>
  One constructor for each kind of call that leaves the process. An HTTP request records
  its URL, headers and credentials; \<open>Run\<close> is a call of \<^verbatim>\<open>subprocess.run\<close> with
  its argument list; \<open>Sleep\<close> is \<^verbatim>\<open>time.sleep\<close> in seconds.
\<close>

datatype event =
    HttpGet string "(string \<times> string) list" "(string \<times> string) option"
  | HttpPost string "(string \<times> string) list" "(string \<times> string) list" "(string \<times> string) option"
  | LogInfo string
  | LogError string
  | Print string
  | MakeDirs string
  | WriteFile string string
  | Run "string list"
  | SmtpConnect string int
  | SmtpStartTls
  | SmtpLogin string string
  | SmtpSendmail string string string string
  | SmtpQuit
  | Sleep nat

text \<open>
  A call returns a value, raises, or is still inside \<^verbatim>\<open>while True\<close> when the
  answers recorded for the monitor loop are used up (\<open>Polling\<close>).
\<close>

datatype 'a outcome = Return 'a | Raise exn | Polling

type_synonym 'a io = "event list \<times> 'a outcome"

definition return_io :: "'a \<Rightarrow> 'a io" where
  "return_io x = ([], Return x)"

definition raise_io :: "exn \<Rightarrow> 'a io" where
  "raise_io e = ([], Raise e)"

definition emit :: "event \<Rightarrow> unit io" where
  "emit ev = ([ev], Return ())"

text \<open>Statement sequencing: the second statement runs only when the first returned.\<close>

definition bind_io :: "'a io \<Rightarrow> ('a \<Rightarrow> 'b io) \<Rightarrow> 'b io" where
  "bind_io m f =
     (case m of
        (t, Return x) \<Rightarrow> (case f x of (t', r) \<Rightarrow> (t @ t', r))
      | (t, Raise e) \<Rightarrow> (t, Raise e)
      | (t, Polling) \<Rightarrow> (t, Polling))"

definition seq_io :: "unit io \<Rightarrow> 'b io \<Rightarrow> 'b io" where
  "seq_io m n = bind_io m (\<lambda>_. n)"

text \<open>
  \<^verbatim>\<open>try: body except C as e: handler\<close>, with the class \<open>C\<close> as a predicate.
\<close>

definition try_except :: "'a io \<Rightarrow> (exn \<Rightarrow> bool) \<Rightarrow> (exn \<Rightarrow> 'a io) \<Rightarrow> 'a io" where
  "try_except m catches handler =
     (case m of
        (t, Raise e) \<Rightarrow>
          (if catches e then (case handler e of (t', r) \<Rightarrow> (t @ t', r)) else (t, Raise e))
      | (t, Return x) \<Rightarrow> (t, Return x)
      | (t, Polling) \<Rightarrow> (t, Polling))"

text \<open>An answer of the outside world: the call raised, or returned a value.\<close>

fun answer :: "exn + 'a \<Rightarrow> 'a io" where
  "answer (Inl e) = raise_io e"
| "answer (Inr x) = return_io x"

fun fault :: "exn option \<Rightarrow> unit io" where
  "fault (Some e) = raise_io e"
| "fault None = return_io ()"

text \<open>
  The status with which the interpreter ends: 0 when \<^verbatim>\<open>main\<close> returns, the
  integer of \<^verbatim>\<open>SystemExit\<close>, and 1 for \<^verbatim>\<open>SystemExit\<close> with a message and for
  any other exception that reaches the top level. A process that is still polling has not
  ended.
\<close>

fun exit_status :: "'a outcome \<Rightarrow> int option" where
  "exit_status (Return x) = Some 0"
| "exit_status (Raise (SystemExit (ExitCode n))) = Some n"
| "exit_status (Raise (SystemExit (ExitMsg m))) = Some 1"
| "exit_status (Raise (RequestException m)) = Some 1"
| "exit_status (Raise (OSError m)) = Some 1"
| "exit_status (Raise (OtherError m)) = Some 1"
| "exit_status (Raise KeyboardInterrupt) = Some 1"
| "exit_status Polling = None"

subsection \<open>Library calls\<close>

text \<open>
  A \<^verbatim>\<open>requests.Response\<close>: the fields the script reads, and what
  \<^verbatim>\<open>response.json()\<close> gives (it raises on a body that is not JSON).
\<close>

record response =
  status_code :: int
  reason :: string
  final_url :: string
  content :: string
  text_body :: string
  json_body :: "exn + (string \<times> string) list"

text \<open>\<^verbatim>\<open>response.raise_for_status()\<close>: an \<^verbatim>\<open>HTTPError\<close> for 4xx and 5xx.\<close>

definition raise_for_status :: "response \<Rightarrow> unit io" where
  "raise_for_status r =
     (if 400 \<le> status_code r \<and> status_code r < 500 then
        raise_io (RequestException (str_int (status_code r) @ '' Client Error: '' @ reason r
                                    @ '' for url: '' @ final_url r))
      else if 500 \<le> status_code r \<and> status_code r < 600 then
        raise_io (RequestException (str_int (status_code r) @ '' Server Error: '' @ reason r
                                    @ '' for url: '' @ final_url r))
      else return_io ())"

definition requests_get ::
  "string \<Rightarrow> (string \<times> string) list \<Rightarrow> (string \<times> string) option \<Rightarrow> exn + response \<Rightarrow> response io" where
  "requests_get u headers auth reply = seq_io (emit (HttpGet u headers auth)) (answer reply)"

definition requests_post ::
  "string \<Rightarrow> (string \<times> string) list \<Rightarrow> (string \<times> string) list \<Rightarrow> (string \<times> string) option
     \<Rightarrow> exn + response \<Rightarrow> response io" where
  "requests_post u headers data auth reply =
     seq_io (emit (HttpPost u headers data auth)) (answer reply)"

text \<open>\<^verbatim>\<open>d[k]\<close> on a dictionary (\<^verbatim>\<open>KeyError\<close> when absent) and \<^verbatim>\<open>d[k] = v\<close>.\<close>

definition getitem :: "(string \<times> string) list \<Rightarrow> string \<Rightarrow> string io" where
  "getitem d k =
     (case map_of d k of
        None \<Rightarrow> raise_io (OtherError (quoted k))
      | Some v \<Rightarrow> return_io v)"

fun setitem :: "(string \<times> string) list \<Rightarrow> string \<Rightarrow> string \<Rightarrow> (string \<times> string) list" where
  "setitem [] k v = [(k, v)]"
| "setitem ((k', v') # d) k v = (if k' = k then (k, v) # d else (k', v') # setitem d k v)"

text \<open>
  \<^verbatim>\<open>subprocess.run(cmd, ...)\<close>. With an empty argument list no process can be
  started: on a POSIX host \<^verbatim>\<open>Popen\<close> takes \<^verbatim>\<open>args[0]\<close> as the executable, which
  raises \<^verbatim>\<open>IndexError\<close>. Otherwise the host answers: the call raises (the program is
  missing, say) or the process ends with a return code.
\<close>

definition subprocess_run :: "string list \<Rightarrow> exn + int \<Rightarrow> int io" where
  "subprocess_run cmd result =
     seq_io (emit (Run cmd))
       (if cmd = [] then raise_io (OtherError ''list index out of range'') else answer result)"

text \<open>
  \<^verbatim>\<open>subprocess.run(cmd, check=True)\<close>: the script never reads the return code, and
  a non-zero one raises \<^verbatim>\<open>CalledProcessError\<close>, so the host's answer is an exception
  or nothing.
\<close>

definition subprocess_run_check :: "string list \<Rightarrow> exn option \<Rightarrow> unit io" where
  "subprocess_run_check cmd result =
     seq_io (emit (Run cmd))
       (if cmd = [] then raise_io (OtherError ''list index out of range'') else fault result)"

text \<open>The payload of \<^verbatim>\<open>json.dumps\<close>, before it is serialised.\<close>

datatype json = JStr string | JInt int | JBool bool | JObj "(string \<times> json) list"

section \<open>The outside world of one run\<close>

text \<open>The namespace that \<^verbatim>\<open>parse_arguments\<close> returns.\<close>

record args =
  args_jenkins_url :: string
  args_username :: string
  args_api_token :: string
  args_agent_name :: string
  args_remote_fs :: string
  args_label :: string
  args_executors :: int
  args_config_file :: string

text \<open>
  The mail settings read from the environment by \<^verbatim>\<open>send_email\<close>.
  \<open>smtp_port\<close> is the result of \<^verbatim>\<open>int(os.getenv('SMTP_PORT'))\<close>, which raises
  when the variable is unset or not a number.
\<close>

record mail_settings =
  email_from :: string
  email_to :: string
  smtp_server :: string
  smtp_port :: "exn + int"
  smtp_user :: string
  smtp_password :: string

text \<open>
  What the host answers during one pass of the monitor loop: the status command raises or
  ends with a return code, and the mail session, if one is opened, fails at a stage or
  goes through.
\<close>

record cycle =
  probe :: "exn + int"
  smtp_fault :: "(smtp_stage \<times> exn) option"

text \<open>
  One answer for each call site. \<open>cli\<close> is what \<^verbatim>\<open>argparse\<close> does with the
  command line: it exits with a status or yields the namespace. \<open>path_join\<close> is
  \<^verbatim>\<open>os.path.join\<close> and \<open>json_dumps\<close> is \<^verbatim>\<open>json.dumps\<close> of the host's
  Python. \<open>cycles\<close> lists the answers for the passes of the monitor loop; the loop
  itself has no end.
\<close>

record world =
  cli :: "int + args"
  platform_system :: string
  path_join :: "string \<Rightarrow> string \<Rightarrow> string"
  json_dumps :: "json \<Rightarrow> string"
  crumb_reply :: "exn + response"
  check_reply :: "exn + response"
  create_reply :: "exn + response"
  jar_reply :: "exn + response"
  remote_fs_exists :: bool
  makedirs_fault :: "exn option"
  jar_write_fault :: "exn option"
  unit_write_fault :: "exn option"
  daemon_reload_fault :: "exn option"
  enable_fault :: "exn option"
  start_fault :: "exn option"
  nssm_install_fault :: "exn option"
  nssm_start_fault :: "exn option"
  mail :: mail_settings
  cycles :: "cycle list"

section \<open>The script\<close>

subsection \<open>Remote management client\<close>

definition parse_arguments :: "world \<Rightarrow> args io" where
  "parse_arguments w =
     (case cli w of
        Inl status \<Rightarrow> raise_io (SystemExit (ExitCode status))
      | Inr a \<Rightarrow> return_io a)"

definition get_headers :: "(string \<times> string) option \<Rightarrow> (string \<times> string) list" where
  "get_headers csrf_token =
     (let headers = [(''Content-Type'', ''application/x-www-form-urlencoded'')] in
      case csrf_token of
        None \<Rightarrow> headers
      | Some tok \<Rightarrow> setitem headers (fst tok) (snd tok))"

definition get_csrf_token :: "world \<Rightarrow> string \<Rightarrow> string \<times> string \<Rightarrow> (string \<times> string) io" where
  "get_csrf_token w jenkins_url auth =
     try_except
       (let crumb_issuer_url = jenkins_url @ ''/crumbIssuer/api/json'' in
        bind_io (requests_get crumb_issuer_url [] (Some auth) (crumb_reply w)) (\<lambda>response.
        seq_io (raise_for_status response)
       (bind_io (answer (json_body response)) (\<lambda>crumb_data.
        bind_io (getitem crumb_data ''crumbRequestField'') (\<lambda>field.
        bind_io (getitem crumb_data ''crumb'') (\<lambda>crumb.
        return_io (field, crumb)))))))
       is_RequestException
       (\<lambda>e. seq_io (emit (LogError (''Error retrieving CSRF token: '' @ str_exn e)))
                   (raise_io (SystemExit (ExitMsg (''Error retrieving CSRF token: '' @ str_exn e)))))"

definition check_agent_exists ::
  "world \<Rightarrow> string \<Rightarrow> string \<Rightarrow> (string \<times> string) list \<Rightarrow> string \<times> string \<Rightarrow> bool io" where
  "check_agent_exists w jenkins_url agent_name headers auth =
     (let check_agent_url = jenkins_url @ ''/computer/'' @ agent_name @ ''/api/json'' in
      try_except
        (bind_io (requests_get check_agent_url headers (Some auth) (check_reply w)) (\<lambda>response.
           if status_code response = 200 then
             seq_io (emit (LogInfo (''Agent '' @ quoted agent_name @ '' already exists.'')))
            (seq_io (emit (Print (''Agent '' @ quoted agent_name @ '' already exists.'')))
                    (return_io True))
           else if status_code response = 404 then
             seq_io (emit (LogInfo (''Agent '' @ quoted agent_name
                                    @ '' does not exist. Proceeding with creation.'')))
                    (return_io False)
           else
             seq_io (emit (LogError
                       (''Unexpected response while checking agent existence. Status code: ''
                        @ str_int (status_code response))))
                    (raise_io (SystemExit (ExitMsg (''Error: Unexpected response code ''
                                                    @ str_int (status_code response)))))))
        is_RequestException
        (\<lambda>e. seq_io (emit (LogError (''Error checking if agent exists: '' @ str_exn e)))
                    (raise_io (SystemExit (ExitMsg (''Error checking if agent exists: ''
                                                    @ str_exn e))))))"

text \<open>The dictionary that \<^verbatim>\<open>create_agent\<close> hands to \<^verbatim>\<open>json.dumps\<close>.\<close>

definition create_agent_json :: "string \<Rightarrow> string \<Rightarrow> string \<Rightarrow> json" where
  "create_agent_json agent_name remote_fs label =
     JObj [
       (''name'', JStr agent_name),
       (''nodeDescription'', JStr ''Created by REST API''),
       (''numExecutors'', JInt 1),
       (''remoteFS'', JStr remote_fs),
       (''labelString'', JStr label),
       (''mode'', JStr ''NORMAL''),
       (''retentionStrategy'',
          JObj [(''stapler-class'', JStr ''hudson.slaves.RetentionStrategy$Always'')]),
       (''launcher'',
          JObj [
            (''stapler-class'', JStr ''hudson.slaves.JNLPLauncher''),
            (''workDirSettings'',
               JObj [
                 (''disabled'', JBool False),
                 (''internalDir'', JStr ''remoting''),
                 (''failIfWorkDirIsMissing'', JBool False)])]),
       (''nodeProperties'', JObj [(''stapler-class-bag'', JStr ''true'')])]"

text \<open>The form data of the request: the \<^verbatim>\<open>data\<close> dictionary.\<close>

definition create_agent_data :: "world \<Rightarrow> string \<Rightarrow> string \<Rightarrow> string \<Rightarrow> (string \<times> string) list" where
  "create_agent_data w agent_name remote_fs label =
     [(''name'', agent_name),
      (''type'', ''hudson.slaves.DumbSlave''),
      (''json'', json_dumps w (create_agent_json agent_name remote_fs label))]"

definition create_agent ::
  "world \<Rightarrow> string \<Rightarrow> string \<Rightarrow> (string \<times> string) list \<Rightarrow> string \<times> string \<Rightarrow> string \<Rightarrow> string
     \<Rightarrow> unit io" where
  "create_agent w jenkins_url agent_name headers auth remote_fs label =
     (let create_agent_url = jenkins_url @ ''/computer/doCreateItem'';
          data = create_agent_data w agent_name remote_fs label in
      try_except
        (bind_io (requests_post create_agent_url headers data (Some auth) (create_reply w))
           (\<lambda>response.
              seq_io (raise_for_status response)
                (if status_code response = 200 then
                   seq_io (emit (LogInfo (''Agent '' @ quoted agent_name
                                          @ '' created successfully.'')))
                          (emit (Print (''Agent '' @ quoted agent_name
                                        @ '' created successfully!'')))
                 else
                   seq_io (emit (LogError (''Failed to create agent. Status code: ''
                                           @ str_int (status_code response)
                                           @ '', Message: '' @ text_body response)))
                          (raise_io (SystemExit (ExitMsg
                             (''Error: Failed to create agent. Status code: ''
                              @ str_int (status_code response))))))))
        is_RequestException
        (\<lambda>e. seq_io (emit (LogError (''Error creating agent: '' @ str_exn e)))
                    (raise_io (SystemExit (ExitMsg (''Error creating agent: '' @ str_exn e))))))"

subsection \<open>Service installer\<close>

definition download_agent_jar :: "world \<Rightarrow> string \<Rightarrow> string \<Rightarrow> string io" where
  "download_agent_jar w jenkins_url remote_fs =
     (let jar_url = jenkins_url @ ''/jnlpJars/agent.jar'';
          jar_path = path_join w remote_fs ''agent.jar'' in
      seq_io
        (if \<not> remote_fs_exists w then
           try_except
             (seq_io (emit (MakeDirs remote_fs))
             (seq_io (fault (makedirs_fault w))
                     (emit (Print (''Directory '' @ remote_fs @ '' created.'')))))
             is_OSError
             (\<lambda>e. seq_io (emit (LogError (''Error creating directory '' @ remote_fs @ '': ''
                                          @ str_exn e)))
                         (raise_io (SystemExit (ExitMsg (''Error creating directory '' @ remote_fs
                                                         @ '': '' @ str_exn e)))))
         else return_io ())
        (try_except
           (bind_io (requests_get jar_url [] None (jar_reply w)) (\<lambda>response.
            seq_io (raise_for_status response)
           (seq_io (emit (WriteFile jar_path (content response)))
           (seq_io (fault (jar_write_fault w))
           (seq_io (emit (Print (''Downloaded agent.jar to '' @ jar_path)))
                   (return_io jar_path))))))
           is_RequestException
           (\<lambda>e. seq_io (emit (LogError (''Error downloading agent.jar: '' @ str_exn e)))
                       (raise_io (SystemExit (ExitMsg (''Error downloading agent.jar: ''
                                                       @ str_exn e)))))))"

text \<open>
  The start of \<^verbatim>\<open>create_linux_service\<close>: one trailing slash of the server URL is
  dropped (\<^verbatim>\<open>jenkins_url[:-1]\<close>).
\<close>

definition strip_trailing_slash :: "string \<Rightarrow> string" where
  "strip_trailing_slash jenkins_url =
     (if endswith_slash jenkins_url then butlast jenkins_url else jenkins_url)"

text \<open>
  The command that \<^verbatim>\<open>create_linux_service\<close> prints and embeds after
  \<^verbatim>\<open>ExecStart=\<close>, from the URL as it is after the step above.
\<close>

definition exec_command ::
  "string \<Rightarrow> string \<Rightarrow> string \<Rightarrow> string \<Rightarrow> string \<Rightarrow> string \<Rightarrow> string" where
  "exec_command agent_name jenkins_url username api_token jar_path work_dir =
     ''/usr/bin/java -jar '' @ jar_path @ '' -jnlpUrl '' @ jenkins_url @ ''/computer/''
     @ agent_name @ ''/jenkins-agent.jnlp -jnlpCredentials '' @ username @ '':'' @ api_token
     @ '' -workDir '' @ work_dir"

text \<open>The unit file: the f-string \<^verbatim>\<open>service_content\<close>, line by line.\<close>

definition service_content ::
  "string \<Rightarrow> string \<Rightarrow> string \<Rightarrow> string \<Rightarrow> string \<Rightarrow> string \<Rightarrow> string" where
  "service_content agent_name jenkins_url username api_token jar_path work_dir =
     [LF]
     @ ''[Unit]'' @ [LF]
     @ ''Description=Jenkins Agent for '' @ agent_name @ [LF]
     @ ''After=network.target'' @ [LF]
     @ [LF]
     @ ''[Service]'' @ [LF]
     @ ''ExecStart=/usr/bin/java -jar '' @ jar_path @ '' -jnlpUrl '' @ jenkins_url
       @ ''/computer/'' @ agent_name @ ''/jenkins-agent.jnlp -jnlpCredentials '' @ username
       @ '':'' @ api_token @ '' -workDir '' @ work_dir @ [LF]
     @ ''User=gopal'' @ [LF]
     @ ''Restart=on-failure'' @ [LF]
     @ [LF]
     @ ''[Install]'' @ [LF]
     @ ''WantedBy=multi-user.target'' @ [LF]"

definition create_linux_service ::
  "world \<Rightarrow> string \<Rightarrow> string \<Rightarrow> string \<Rightarrow> string \<Rightarrow> string \<Rightarrow> string \<Rightarrow> unit io" where
  "create_linux_service w agent_name jenkins_url0 username api_token jar_path work_dir =
     (let jenkins_url = strip_trailing_slash jenkins_url0;
          service_file_path = ''/etc/systemd/system/'' @ agent_name @ ''.service'' in
      seq_io (emit (Print (exec_command agent_name jenkins_url username api_token jar_path work_dir)))
        (try_except
           (seq_io (emit (WriteFile service_file_path
                            (service_content agent_name jenkins_url username api_token jar_path
                               work_dir)))
           (seq_io (fault (unit_write_fault w))
           (seq_io (subprocess_run_check [''systemctl'', ''daemon-reload''] (daemon_reload_fault w))
           (seq_io (subprocess_run_check [''systemctl'', ''enable'', agent_name @ ''.service'']
                      (enable_fault w))
           (seq_io (subprocess_run_check [''systemctl'', ''start'', agent_name @ ''.service'']
                      (start_fault w))
                   (emit (Print (''Jenkins agent '' @ quoted agent_name
                                 @ '' installed as a Linux service.''))))))))
           is_Exception
           (\<lambda>e. raise_io (SystemExit (ExitMsg
                    (''Failed to create and start the systemd service: '' @ str_exn e))))))"

definition create_windows_service ::
  "world \<Rightarrow> string \<Rightarrow> string \<Rightarrow> string \<Rightarrow> string \<Rightarrow> string \<Rightarrow> string \<Rightarrow> unit io" where
  "create_windows_service w agent_name jenkins_url username api_token jar_path work_dir =
     (let service_name = agent_name @ ''_service'';
          nssm_path = ''C:'' @ [CHR 0x5C] @ ''path'' @ [CHR 0x5C] @ ''to'' @ [CHR 0x5C] @ ''nssm.exe'' in
      try_except
        (seq_io (subprocess_run_check
                   [nssm_path, ''install'', service_name, ''java'', ''-jar'', jar_path,
                    ''-jnlpUrl'', jenkins_url @ ''/computer/'' @ agent_name @ ''/jenkins-agent.jnlp'',
                    ''-jnlpCredentials'', username @ '':'' @ api_token,
                    ''-workDir'', work_dir]
                   (nssm_install_fault w))
        (seq_io (subprocess_run_check [nssm_path, ''start'', service_name] (nssm_start_fault w))
                (emit (Print (''Jenkins agent '' @ quoted agent_name
                              @ '' installed as a Windows service.'')))))
        is_Exception
        (\<lambda>e. raise_io (SystemExit (ExitMsg
                 (''Failed to create and start the Windows service: '' @ str_exn e)))))"

definition install_agent_service ::
  "world \<Rightarrow> string \<Rightarrow> string \<Rightarrow> string \<Rightarrow> string \<Rightarrow> string \<Rightarrow> unit io" where
  "install_agent_service w agent_name jenkins_url remote_fs username api_token =
     (let current_platform = platform_system w in
      bind_io (download_agent_jar w jenkins_url remote_fs) (\<lambda>jar_path.
        if current_platform = ''Linux'' then
          create_linux_service w agent_name jenkins_url username api_token jar_path remote_fs
        else if current_platform = ''Windows'' then
          create_windows_service w agent_name jenkins_url username api_token jar_path remote_fs
        else
          raise_io (SystemExit (ExitMsg (''Unsupported platform: '' @ current_platform)))))"

subsection \<open>Alert notifier\<close>

text \<open>
  One call on the SMTP connection: it raises when the session fails at this stage, and
  otherwise takes effect.
\<close>

definition smtp_step :: "(smtp_stage \<times> exn) option \<Rightarrow> smtp_stage \<Rightarrow> event \<Rightarrow> unit io" where
  "smtp_step failure stage ev =
     (case failure of
        None \<Rightarrow> emit ev
      | Some (s, e) \<Rightarrow> if s = stage then raise_io e else emit ev)"

definition send_email :: "mail_settings \<Rightarrow> (smtp_stage \<times> exn) option \<Rightarrow> string \<Rightarrow> string \<Rightarrow> unit io" where
  "send_email env failure subject body =
     bind_io (answer (smtp_port env)) (\<lambda>port.
       try_except
         (seq_io (smtp_step failure Connect (SmtpConnect (smtp_server env) port))
         (seq_io (smtp_step failure StartTls SmtpStartTls)
         (seq_io (smtp_step failure Login (SmtpLogin (smtp_user env) (smtp_password env)))
         (seq_io (smtp_step failure Sendmail
                    (SmtpSendmail (email_from env) (email_to env) subject body))
         (seq_io (smtp_step failure Quit SmtpQuit)
                 (emit (Print (''Alert email sent to '' @ email_to env))))))))
         is_Exception
         (\<lambda>e. seq_io (emit (LogError (''Failed to send email alert: '' @ str_exn e)))
                     (raise_io (SystemExit (ExitMsg (''Error sending email: '' @ str_exn e))))))"

subsection \<open>Liveness monitor\<close>

text \<open>The body of the \<^verbatim>\<open>while True\<close> loop of \<^verbatim>\<open>monitor_service\<close>: one poll.\<close>

definition monitor_cycle :: "mail_settings \<Rightarrow> string \<Rightarrow> string list \<Rightarrow> cycle \<Rightarrow> unit io" where
  "monitor_cycle env agent_name service_status_cmd c =
     bind_io (subprocess_run service_status_cmd (probe c)) (\<lambda>returncode.
       seq_io
         (if returncode \<noteq> 0 then
            (let subject = ''Service Failure: '' @ agent_name;
                 body = ''The Jenkins agent service '' @ quoted agent_name
                        @ '' has failed or stopped unexpectedly.'' in
             send_email env (smtp_fault c) subject body)
          else
            seq_io (emit (LogInfo (''The Jenkins agent service '' @ quoted agent_name
                                   @ '' is running normally.'')))
                   (emit (Print (''The Jenkins agent service '' @ quoted agent_name
                                 @ '' is running normally.''))))
         (emit (Sleep 20)))"

text \<open>
  \<^verbatim>\<open>while True: body\<close>, run against the recorded answers. The loop has no exit of
  its own: it ends when the body raises, and is still polling when the answers are used up.
\<close>

fun while_true :: "('c \<Rightarrow> unit io) \<Rightarrow> 'c list \<Rightarrow> unit io" where
  "while_true body [] = ([], Polling)"
| "while_true body (c # cs) =
     (case body c of
        (t, Return u) \<Rightarrow> (case while_true body cs of (t', r) \<Rightarrow> (t @ t', r))
      | (t, Raise e) \<Rightarrow> (t, Raise e)
      | (t, Polling) \<Rightarrow> (t, Polling))"

definition service_status_cmd_of :: "string \<Rightarrow> string \<Rightarrow> string list" where
  "service_status_cmd_of current_platform agent_name =
     (if current_platform = ''Linux'' then [''systemctl'', ''is-active'', agent_name @ ''.service'']
      else if current_platform = ''Windows'' then [''sc'', ''query'', agent_name]
      else [])"

definition monitor_service :: "world \<Rightarrow> string \<Rightarrow> unit io" where
  "monitor_service w agent_name =
     (let current_platform = platform_system w;
          service_status_cmd = service_status_cmd_of current_platform agent_name in
      try_except
        (while_true (monitor_cycle (mail w) agent_name service_status_cmd) (cycles w))
        is_Exception
        (\<lambda>e. seq_io (emit (LogError (''Failed to monitor the service: '' @ str_exn e)))
                    (raise_io (SystemExit (ExitMsg (''Error monitoring service: '' @ str_exn e))))))"

subsection \<open>Entry point\<close>

definition main :: "world \<Rightarrow> unit io" where
  "main w =
     try_except
       (bind_io (parse_arguments w) (\<lambda>a.
        let auth = (args_username a, args_api_token a) in
        bind_io (get_csrf_token w (args_jenkins_url a) auth) (\<lambda>csrf_token.
        let headers = get_headers (Some csrf_token) in
        bind_io (check_agent_exists w (args_jenkins_url a) (args_agent_name a) headers auth)
          (\<lambda>exists.
        seq_io (if \<not> exists then
                  create_agent w (args_jenkins_url a) (args_agent_name a) headers auth
                    (args_remote_fs a) (args_label a)
                else return_io ())
       (seq_io (install_agent_service w (args_agent_name a) (args_jenkins_url a)
                  (args_remote_fs a) (args_username a) (args_api_token a))
       (seq_io (monitor_service w (args_agent_name a))
               (emit (Print ''line 283''))))))))
       is_KeyboardInterrupt
       (\<lambda>e. seq_io (emit (LogError ''Script interrupted by user.''))
                   (raise_io (SystemExit (ExitCode 1))))"

section \<open>Reading a run\<close>

text \<open>
  The only \<^verbatim>\<open>requests.post\<close> of the script is the first statement that
  \<^verbatim>\<open>create_agent\<close> executes after building its payload, so the calls of
  \<^verbatim>\<open>create_agent\<close> in a run are the POST requests of its trace.
\<close>

fun is_post :: "event \<Rightarrow> bool" where
  "is_post (HttpPost u h d a) = True"
| "is_post ev = False"

definition registrations :: "event list \<Rightarrow> nat" where
  "registrations t = length (filter is_post t)"

fun is_run :: "event \<Rightarrow> bool" where
  "is_run (Run cmd) = True"
| "is_run ev = False"

fun is_write :: "event \<Rightarrow> bool" where
  "is_write (WriteFile p c) = True"
| "is_write ev = False"

fun is_makedirs :: "event \<Rightarrow> bool" where
  "is_makedirs (MakeDirs p) = True"
| "is_makedirs ev = False"

fun is_smtp :: "event \<Rightarrow> bool" where
  "is_smtp (SmtpConnect s p) = True"
| "is_smtp SmtpStartTls = True"
| "is_smtp (SmtpLogin u p) = True"
| "is_smtp (SmtpSendmail f t s b) = True"
| "is_smtp SmtpQuit = True"
| "is_smtp ev = False"

fun is_sendmail :: "event \<Rightarrow> bool" where
  "is_sendmail (SmtpSendmail f t s b) = True"
| "is_sendmail ev = False"

definition notifications :: "event list \<Rightarrow> nat" where
  "notifications t = length (filter is_sendmail t)"

text \<open>The informational line of a poll that found the service running.\<close>

fun is_running_report :: "string \<Rightarrow> event \<Rightarrow> bool" where
  "is_running_report agent_name (LogInfo m) =
     (m = ''The Jenkins agent service '' @ quoted agent_name @ '' is running normally.'')"
| "is_running_report agent_name ev = False"

text \<open>A poll that found the service down and whose mail went through.\<close>

definition failed_and_notified :: "mail_settings \<Rightarrow> cycle \<Rightarrow> bool" where
  "failed_and_notified env c =
     (case probe c of
        Inl e \<Rightarrow> False
      | Inr returncode \<Rightarrow>
          returncode \<noteq> 0 \<and> smtp_fault c = None
          \<and> (case smtp_port env of Inl e \<Rightarrow> False | Inr port \<Rightarrow> True))"

text \<open>A poll that the loop survives: the service runs, or it is down and the mail went out.\<close>

definition completes :: "mail_settings \<Rightarrow> cycle \<Rightarrow> bool" where
  "completes env c = (probe c = Inr 0 \<or> failed_and_notified env c)"

text \<open>Every effect of a call satisfies \<open>P\<close>.\<close>

definition only_events :: "(event \<Rightarrow> bool) \<Rightarrow> 'a io \<Rightarrow> bool" where
  "only_events P m = list_all P (fst m)"

text \<open>A key of a JSON object.\<close>

fun json_get :: "json \<Rightarrow> string \<Rightarrow> json option" where
  "json_get (JObj kvs) k = map_of kvs k"
| "json_get j k = None"

text \<open>
  How the call of \<^verbatim>\<open>check_agent_exists\<close> in \<^verbatim>\<open>main\<close> ended, if the run
  got that far: the arguments were parsed and the CSRF token was fetched.
\<close>

definition existence_check :: "world \<Rightarrow> bool outcome option" where
  "existence_check w =
     (case cli w of
        Inl status \<Rightarrow> None
      | Inr a \<Rightarrow>
          (case snd (get_csrf_token w (args_jenkins_url a) (args_username a, args_api_token a)) of
             Return csrf_token \<Rightarrow>
               Some (snd (check_agent_exists w (args_jenkins_url a) (args_agent_name a)
                            (get_headers (Some csrf_token)) (args_username a, args_api_token a)))
           | Raise e \<Rightarrow> None
           | Polling \<Rightarrow> None))"

text \<open>
  Steps 1 to 4 of \<^verbatim>\<open>main\<close> all returned, so that the run enters
  \<^verbatim>\<open>monitor_service\<close>.
\<close>

definition provisioned :: "world \<Rightarrow> args \<Rightarrow> bool" where
  "provisioned w a =
     (cli w = Inr a
      \<and> (case snd (get_csrf_token w (args_jenkins_url a) (args_username a, args_api_token a)) of
           Return csrf_token \<Rightarrow>
             (case snd (check_agent_exists w (args_jenkins_url a) (args_agent_name a)
                          (get_headers (Some csrf_token)) (args_username a, args_api_token a)) of
                Return exists \<Rightarrow>
                  (exists
                   \<or> snd (create_agent w (args_jenkins_url a) (args_agent_name a)
                             (get_headers (Some csrf_token)) (args_username a, args_api_token a)
                             (args_remote_fs a) (args_label a)) = Return ())
                  \<and> snd (install_agent_service w (args_agent_name a) (args_jenkins_url a)
                            (args_remote_fs a) (args_username a) (args_api_token a)) = Return ()
              | Raise e \<Rightarrow> False
              | Polling \<Rightarrow> False)
         | Raise e \<Rightarrow> False
         | Polling \<Rightarrow> False))"

text \<open>\<^verbatim>\<open>platform.system()\<close> names a host the installer has no branch for.\<close>

definition unsupported :: "string \<Rightarrow> bool" where
  "unsupported current_platform =
     (current_platform \<noteq> ''Linux'' \<and> current_platform \<noteq> ''Windows'')"

section \<open>Reading the unit file back\<close>

text \<open>
  The script only writes the unit file. The round trip of the specification needs a
  reader; this one follows the specification's words, not the source: the text is cut at
  line feeds, and the command is what follows \<^verbatim>\<open>ExecStart=\<close> on the first line
  that starts with it.
\<close>

fun split_lines :: "string \<Rightarrow> string list" where
  "split_lines [] = [[]]"
| "split_lines (c # cs) =
     (if c = LF then [] # split_lines cs
      else (case split_lines cs of
              [] \<Rightarrow> [[c]]
            | l # ls \<Rightarrow> (c # l) # ls))"

definition spec_parse_exec_start :: "string \<Rightarrow> string option" where
  "spec_parse_exec_start unit_text =
     (case filter (\<lambda>l. take 10 l = ''ExecStart='') (split_lines unit_text) of
        [] \<Rightarrow> None
      | l # ls \<Rightarrow> Some (drop 10 l))"

section \<open>Example hosts\<close>

text \<open>\<^verbatim>\<open>posixpath.join\<close> with a relative second part.\<close>

definition posix_join :: "string \<Rightarrow> string \<Rightarrow> string" where
  "posix_join a b = (if a = [] then b else if last a = CHR ''/'' then a @ b else a @ ''/'' @ b)"

text \<open>
  \<^verbatim>\<open>json.dumps\<close> with its default separators, for strings that need no escaping.
\<close>

fun join_comma :: "string list \<Rightarrow> string" where
  "join_comma [] = []"
| "join_comma [x] = x"
| "join_comma (x # y # ys) = x @ '', '' @ join_comma (y # ys)"

fun plain_dumps :: "json \<Rightarrow> string" where
  "plain_dumps (JStr s) = CHR 0x22 # s @ [CHR 0x22]"
| "plain_dumps (JInt i) = str_int i"
| "plain_dumps (JBool b) = (if b then ''true'' else ''false'')"
| "plain_dumps (JObj kvs) =
     ''{'' @ join_comma (map (\<lambda>kv. CHR 0x22 # fst kv @ [CHR 0x22] @ '': '' @ plain_dumps (snd kv)) kvs)
     @ ''}''"

definition http_reply :: "int \<Rightarrow> string \<Rightarrow> string \<Rightarrow> exn + response" where
  "http_reply code why payload =
     Inr \<lparr>status_code = code, reason = why, final_url = ''http://ci:8080/'',
          content = payload, text_body = payload,
          json_body = Inl (RequestException ''Expecting value: line 1 column 1 (char 0)'')\<rparr>"

definition crumb_ok :: "exn + response" where
  "crumb_ok =
     Inr \<lparr>status_code = 200, reason = ''OK'', final_url = ''http://ci:8080/crumbIssuer/api/json'',
          content = [], text_body = [],
          json_body = Inr [(''crumbRequestField'', ''Jenkins-Crumb''), (''crumb'', ''abc123'')]\<rparr>"

definition worker_args :: args where
  "worker_args =
     \<lparr>args_jenkins_url = ''http://ci:8080'', args_username = ''admin'',
      args_api_token = ''s3cret'', args_agent_name = ''worker-1'',
      args_remote_fs = ''/opt/agent'', args_label = ''linux'', args_executors = 4,
      args_config_file = ''config.json''\<rparr>"

definition ops_mail :: mail_settings where
  "ops_mail =
     \<lparr>email_from = ''ci@example.org'', email_to = ''ops@example.org'',
      smtp_server = ''smtp.example.org'', smtp_port = Inr 587,
      smtp_user = ''ci'', smtp_password = ''pw''\<rparr>"

text \<open>
  A Linux host on which \<^verbatim>\<open>worker-1\<close> is not yet registered and every call
  succeeds; the service is found running once and then down twice.
\<close>

definition linux_host :: world where
  "linux_host =
     \<lparr>cli = Inr worker_args, platform_system = ''Linux'', path_join = posix_join,
      json_dumps = plain_dumps, crumb_reply = crumb_ok,
      check_reply = http_reply 404 ''Not Found'' [],
      create_reply = http_reply 200 ''OK'' [],
      jar_reply = http_reply 200 ''OK'' ''PK-agent-jar'',
      remote_fs_exists = False, makedirs_fault = None, jar_write_fault = None,
      unit_write_fault = None, daemon_reload_fault = None, enable_fault = None,
      start_fault = None, nssm_install_fault = None, nssm_start_fault = None,
      mail = ops_mail,
      cycles = [\<lparr>probe = Inr 0, smtp_fault = None\<rparr>,
                \<lparr>probe = Inr 3, smtp_fault = None\<rparr>,
                \<lparr>probe = Inr 3, smtp_fault = None\<rparr>]\<rparr>"

text \<open>The same run on a host whose platform is neither Linux nor Windows.\<close>

definition darwin_host :: world where
  "darwin_host = linux_host\<lparr>platform_system := ''Darwin''\<rparr>"

text \<open>The Linux host when the server answers the status probe with 503.\<close>

definition busy_host :: world where
  "busy_host = linux_host\<lparr>check_reply := http_reply 503 ''Service Unavailable'' []\<rparr>"

text \<open>The Linux host when the mail relay rejects the login on the first alert.\<close>

definition mail_down_host :: world where
  "mail_down_host =
     linux_host\<lparr>cycles :=
       [\<lparr>probe = Inr 0, smtp_fault = None\<rparr>,
        \<lparr>probe = Inr 3, smtp_fault = Some (Login, OtherError ''(535, Authentication failed)'')\<rparr>,
        \<lparr>probe = Inr 0, smtp_fault = None\<rparr>]\<rparr>"

text \<open>The Linux host when \<^verbatim>\<open>worker-1\<close> is already registered.\<close>

definition registered_host :: world where
  "registered_host = linux_host\<lparr>check_reply := http_reply 200 ''OK'' []\<rparr>"

text \<open>The Darwin host when the server cannot be reached for the download.\<close>

definition offline_darwin_host :: world where
  "offline_darwin_host =
     darwin_host\<lparr>jar_reply := Inl (RequestException ''Connection refused'')\<rparr>"

section \<open>Basic facts about the combinators\<close>

lemmas io_defs = bind_io_def seq_io_def emit_def return_io_def raise_io_def try_except_def

lemma status_cmd_nonempty: "\<not> unsupported p \<Longrightarrow> service_status_cmd_of p n \<noteq> []"
  by (auto simp add: unsupported_def service_status_cmd_of_def)

lemma fst_bind_io:
  "fst (bind_io m f) = (case snd m of Return x \<Rightarrow> fst m @ fst (f x) | Raise e \<Rightarrow> fst m | Polling \<Rightarrow> fst m)"
  by (simp add: bind_io_def split: prod.splits outcome.splits)

lemma snd_bind_io:
  "snd (bind_io m f) = (case snd m of Return x \<Rightarrow> snd (f x) | Raise e \<Rightarrow> Raise e | Polling \<Rightarrow> Polling)"
  by (simp add: bind_io_def split: prod.splits outcome.splits)

lemma fst_seq_io:
  "fst (seq_io m n) = (case snd m of Return x \<Rightarrow> fst m @ fst n | Raise e \<Rightarrow> fst m | Polling \<Rightarrow> fst m)"
  by (simp add: seq_io_def fst_bind_io)

lemma snd_seq_io:
  "snd (seq_io m n) = (case snd m of Return x \<Rightarrow> snd n | Raise e \<Rightarrow> Raise e | Polling \<Rightarrow> Polling)"
  by (simp add: seq_io_def snd_bind_io)

lemma fst_try_except:
  "fst (try_except m c h) =
     (case snd m of Raise e \<Rightarrow> if c e then fst m @ fst (h e) else fst m
      | Return x \<Rightarrow> fst m | Polling \<Rightarrow> fst m)"
  by (simp add: try_except_def split: prod.splits outcome.splits)

lemma snd_try_except:
  "snd (try_except m c h) =
     (case snd m of Raise e \<Rightarrow> if c e then snd (h e) else Raise e
      | Return x \<Rightarrow> Return x | Polling \<Rightarrow> Polling)"
  by (simp add: try_except_def split: prod.splits outcome.splits)

lemma only_events_return [intro!]: "only_events P (return_io x)"
  by (simp add: only_events_def return_io_def)

lemma only_events_raise [intro!]: "only_events P (raise_io e)"
  by (simp add: only_events_def raise_io_def)

lemma only_events_emit [intro!]: "P ev \<Longrightarrow> only_events P (emit ev)"
  by (simp add: only_events_def emit_def)

lemma only_events_answer [intro!]: "only_events P (answer r)"
  by (cases r) auto

lemma only_events_fault [intro!]: "only_events P (fault r)"
  by (cases r) auto

lemma only_events_bind [intro!]:
  "only_events P m \<Longrightarrow> (\<And>x. only_events P (f x)) \<Longrightarrow> only_events P (bind_io m f)"
  by (simp add: only_events_def fst_bind_io split: outcome.splits)

lemma only_events_seq [intro!]:
  "only_events P m \<Longrightarrow> only_events P n \<Longrightarrow> only_events P (seq_io m n)"
  by (simp add: only_events_def fst_seq_io split: outcome.splits)

lemma only_events_try [intro!]:
  "only_events P m \<Longrightarrow> (\<And>e. only_events P (h e)) \<Longrightarrow> only_events P (try_except m c h)"
  by (simp add: only_events_def fst_try_except split: outcome.splits)

lemma only_events_if [intro!]:
  "(b \<Longrightarrow> only_events P m) \<Longrightarrow> (\<not> b \<Longrightarrow> only_events P n) \<Longrightarrow> only_events P (if b then m else n)"
  by simp

lemma only_events_raise_for_status [intro!]: "only_events P (raise_for_status r)"
  unfolding raise_for_status_def by auto

lemma only_events_getitem [intro!]: "only_events P (getitem d k)"
  unfolding getitem_def by (auto split: option.splits)

lemma only_events_requests_get [intro!]:
  "P (HttpGet u h a) \<Longrightarrow> only_events P (requests_get u h a r)"
  unfolding requests_get_def by auto

lemma only_events_requests_post [intro!]:
  "P (HttpPost u h d a) \<Longrightarrow> only_events P (requests_post u h d a r)"
  unfolding requests_post_def by auto

lemma only_events_subprocess_run [intro!]:
  "P (Run cmd) \<Longrightarrow> only_events P (subprocess_run cmd r)"
  unfolding subprocess_run_def by auto

lemma only_events_subprocess_run_check [intro!]:
  "P (Run cmd) \<Longrightarrow> only_events P (subprocess_run_check cmd r)"
  unfolding subprocess_run_check_def by auto

lemma fst_while_true_Cons:
  "fst (while_true body (c # cs)) =
     (case snd (body c) of Return u \<Rightarrow> fst (body c) @ fst (while_true body cs)
      | Raise e \<Rightarrow> fst (body c) | Polling \<Rightarrow> fst (body c))"
  by (cases "body c"; cases "while_true body cs") (simp split: outcome.splits)

lemma only_events_while_true:
  "(\<And>c. only_events P (body c)) \<Longrightarrow> only_events P (while_true body cs)"
proof (induction cs)
  case Nil
  show ?case by (simp add: only_events_def)
next
  case (Cons c cs)
  have a: "list_all P (fst (body c))" using Cons.prems [of c] by (simp add: only_events_def)
  have b: "list_all P (fst (while_true body cs))" using Cons by (simp add: only_events_def)
  show ?case using a b
    by (simp add: only_events_def fst_while_true_Cons del: while_true.simps split: outcome.splits)
qed

lemma only_events_get_csrf_token:
  "(\<And>u h a. P (HttpGet u h a)) \<Longrightarrow> (\<And>m. P (LogError m)) \<Longrightarrow> only_events P (get_csrf_token w u a)"
  unfolding get_csrf_token_def Let_def by auto

lemma only_events_check_agent_exists:
  "(\<And>u h a. P (HttpGet u h a)) \<Longrightarrow> (\<And>m. P (LogError m)) \<Longrightarrow> (\<And>m. P (LogInfo m)) \<Longrightarrow> (\<And>m. P (Print m))
   \<Longrightarrow> only_events P (check_agent_exists w u n h a)"
  unfolding check_agent_exists_def Let_def by auto

lemma only_events_download_agent_jar:
  "(\<And>u h a. P (HttpGet u h a)) \<Longrightarrow> (\<And>m. P (LogError m)) \<Longrightarrow> (\<And>m. P (Print m))
   \<Longrightarrow> P (MakeDirs fs) \<Longrightarrow> (\<And>c. P (WriteFile (path_join w fs ''agent.jar'') c))
   \<Longrightarrow> only_events P (download_agent_jar w u fs)"
  unfolding download_agent_jar_def Let_def by auto

lemma settled_return: "snd (return_io x) \<noteq> Polling"
  by (simp add: return_io_def)

lemma settled_raise: "snd (raise_io e) \<noteq> Polling"
  by (simp add: raise_io_def)

lemma settled_emit: "snd (emit ev) \<noteq> Polling"
  by (simp add: emit_def)

lemma settled_answer: "snd (answer r) \<noteq> Polling"
  by (cases r) (simp_all add: settled_return settled_raise)

lemma settled_fault: "snd (fault r) \<noteq> Polling"
  by (cases r) (simp_all add: settled_return settled_raise)

lemma settled_bind:
  "snd m \<noteq> Polling \<Longrightarrow> (\<And>x. snd (f x) \<noteq> Polling) \<Longrightarrow> snd (bind_io m f) \<noteq> Polling"
  by (simp add: snd_bind_io split: outcome.splits)

lemma settled_seq:
  "snd m \<noteq> Polling \<Longrightarrow> snd n \<noteq> Polling \<Longrightarrow> snd (seq_io m n) \<noteq> Polling"
  by (simp add: snd_seq_io split: outcome.splits)

lemma settled_try:
  "snd m \<noteq> Polling \<Longrightarrow> (\<And>e. snd (h e) \<noteq> Polling) \<Longrightarrow> snd (try_except m c h) \<noteq> Polling"
  by (simp add: snd_try_except split: outcome.splits)

lemma settled_if:
  "snd m \<noteq> Polling \<Longrightarrow> snd n \<noteq> Polling \<Longrightarrow> snd (if b then m else n) \<noteq> Polling"
  by simp

lemma settled_raise_for_status: "snd (raise_for_status r) \<noteq> Polling"
  by (simp add: raise_for_status_def settled_return settled_raise)

lemma settled_requests_get: "snd (requests_get u h a r) \<noteq> Polling"
  by (simp add: requests_get_def settled_seq settled_emit settled_answer)

lemmas settled_rules =
  settled_bind settled_seq settled_try settled_if settled_return settled_raise settled_emit
  settled_answer settled_fault settled_raise_for_status settled_requests_get

lemma download_agent_jar_not_polling: "snd (download_agent_jar w u fs) \<noteq> Polling"
  unfolding download_agent_jar_def Let_def by (intro settled_rules)


section \<open>The existence check\<close>

lemma check_agent_exists_reply:
  assumes "check_reply w = Inr r"
  shows "check_agent_exists w u n h a =
    (if status_code r = 200 then
       ([HttpGet (u @ ''/computer/'' @ n @ ''/api/json'') h (Some a),
         LogInfo (''Agent '' @ quoted n @ '' already exists.''),
         Print (''Agent '' @ quoted n @ '' already exists.'')], Return True)
     else if status_code r = 404 then
       ([HttpGet (u @ ''/computer/'' @ n @ ''/api/json'') h (Some a),
         LogInfo (''Agent '' @ quoted n @ '' does not exist. Proceeding with creation.'')],
        Return False)
     else
       ([HttpGet (u @ ''/computer/'' @ n @ ''/api/json'') h (Some a),
         LogError (''Unexpected response while checking agent existence. Status code: ''
                   @ str_int (status_code r))],
        Raise (SystemExit (ExitMsg (''Error: Unexpected response code ''
                                    @ str_int (status_code r))))))"
  using assms by (simp add: check_agent_exists_def requests_get_def io_defs Let_def)

text \<open>
  C6. Whatever response the server gives to the status probe, \<^verbatim>\<open>check_agent_exists\<close>
  returns \<open>True\<close> exactly for status 200 and \<open>False\<close> exactly for status 404; for any
  other status it returns nothing and raises \<^verbatim>\<open>SystemExit\<close> with the message
  "Error: Unexpected response code ...", which ends the process with status 1.
\<close>

theorem check_agent_exists_by_status:
  assumes "check_reply w = Inr r"
  shows "(snd (check_agent_exists w u n h a) = Return True \<longleftrightarrow> status_code r = 200)
       \<and> (snd (check_agent_exists w u n h a) = Return False \<longleftrightarrow> status_code r = 404)
       \<and> (status_code r \<noteq> 200 \<and> status_code r \<noteq> 404 \<longrightarrow>
            snd (check_agent_exists w u n h a)
              = Raise (SystemExit (ExitMsg (''Error: Unexpected response code ''
                                            @ str_int (status_code r))))
            \<and> exit_status (snd (check_agent_exists w u n h a)) = Some 1)"
  by (simp add: check_agent_exists_reply [OF assms])

theorem check_agent_exists_by_status_witness:
  "check_reply busy_host = http_reply 503 ''Service Unavailable'' []
   \<and> snd (check_agent_exists busy_host ''http://ci:8080'' ''worker-1'' [] (''admin'', ''s3cret''))
       = Raise (SystemExit (ExitMsg ''Error: Unexpected response code 503''))
   \<and> exit_status (snd (check_agent_exists busy_host ''http://ci:8080'' ''worker-1'' []
                          (''admin'', ''s3cret''))) = Some 1"
  using check_agent_exists_by_status
    [of busy_host
        "\<lparr>status_code = 503, reason = ''Service Unavailable'', final_url = ''http://ci:8080/'',
          content = [], text_body = [],
          json_body = Inl (RequestException ''Expecting value: line 1 column 1 (char 0)'')\<rparr>"
        "''http://ci:8080''" "''worker-1''" "[]" "(''admin'', ''s3cret'')"]
  by (simp add: busy_host_def linux_host_def http_reply_def str_int_def str_nat.simps)

section \<open>The unit file\<close>

text \<open>
  C9. For a server URL \<open>u\<close> that does not end in a slash, \<^verbatim>\<open>create_linux_service\<close>
  called with \<open>u\<close> followed by one slash embeds \<open>u\<close> itself, so it writes the same unit
  file, and does the same in every other respect, as when called with \<open>u\<close>.
\<close>

theorem strip_one_trailing_slash:
  assumes "\<not> endswith_slash u"
  shows "strip_trailing_slash (u @ ''/'') = u
       \<and> strip_trailing_slash u = u
       \<and> service_content n (strip_trailing_slash (u @ ''/'')) usr tok jar wd
           = service_content n (strip_trailing_slash u) usr tok jar wd
       \<and> create_linux_service w n (u @ ''/'') usr tok jar wd
           = create_linux_service w n u usr tok jar wd"
proof -
  have a: "strip_trailing_slash (u @ ''/'') = u"
    by (simp add: strip_trailing_slash_def endswith_slash_def)
  have b: "strip_trailing_slash u = u"
    using assms by (simp add: strip_trailing_slash_def)
  have c: "create_linux_service w n (u @ ''/'') usr tok jar wd
             = create_linux_service w n u usr tok jar wd"
    unfolding create_linux_service_def a b ..
  from a b c show ?thesis by simp
qed

theorem strip_one_trailing_slash_witness:
  "\<not> endswith_slash ''http://ci:8080''
   \<and> strip_trailing_slash ''http://ci:8080/'' = ''http://ci:8080''
   \<and> create_linux_service linux_host ''worker-1'' ''http://ci:8080/'' ''admin'' ''s3cret''
        ''/opt/agent/agent.jar'' ''/opt/agent''
      = create_linux_service linux_host ''worker-1'' ''http://ci:8080'' ''admin'' ''s3cret''
        ''/opt/agent/agent.jar'' ''/opt/agent''"
  using strip_one_trailing_slash
    [of "''http://ci:8080''" "''worker-1''" "''admin''" "''s3cret''" "''/opt/agent/agent.jar''"
        "''/opt/agent''" linux_host]
  by (simp add: endswith_slash_def)

section \<open>Registration is gated by the existence check\<close>

lemma registrations_append: "registrations (a @ b) = registrations a + registrations b"
  by (simp add: registrations_def)

lemma registrations_none:
  "only_events (\<lambda>ev. \<not> is_post ev) m \<Longrightarrow> registrations (fst m) = 0"
  by (simp add: only_events_def registrations_def list_all_iff filter_empty_conv)

lemma only_events_send_email:
  "(\<And>s p. P (SmtpConnect s p)) \<Longrightarrow> P SmtpStartTls \<Longrightarrow> (\<And>u p. P (SmtpLogin u p))
   \<Longrightarrow> (\<And>f t s b. P (SmtpSendmail f t s b)) \<Longrightarrow> P SmtpQuit
   \<Longrightarrow> (\<And>m. P (LogError m)) \<Longrightarrow> (\<And>m. P (Print m))
   \<Longrightarrow> only_events P (send_email env fl subj body)"
  unfolding send_email_def smtp_step_def by (auto split: option.splits)

lemma only_events_monitor_service:
  "(\<And>s p. P (SmtpConnect s p)) \<Longrightarrow> P SmtpStartTls \<Longrightarrow> (\<And>u p. P (SmtpLogin u p))
   \<Longrightarrow> (\<And>f t s b. P (SmtpSendmail f t s b)) \<Longrightarrow> P SmtpQuit
   \<Longrightarrow> (\<And>m. P (LogError m)) \<Longrightarrow> (\<And>m. P (Print m)) \<Longrightarrow> (\<And>m. P (LogInfo m))
   \<Longrightarrow> (\<And>c. P (Run c)) \<Longrightarrow> (\<And>k. P (Sleep k))
   \<Longrightarrow> only_events P (monitor_service w n)"
  unfolding monitor_service_def monitor_cycle_def Let_def
  by (intro only_events_try only_events_while_true only_events_bind only_events_seq
        only_events_if only_events_send_email only_events_subprocess_run only_events_emit
        only_events_raise) auto

lemma only_events_create_linux_service:
  "(\<And>m. P (Print m)) \<Longrightarrow> (\<And>c. P (Run c)) \<Longrightarrow> (\<And>p c. P (WriteFile p c))
   \<Longrightarrow> only_events P (create_linux_service w n u usr tok jar wd)"
  unfolding create_linux_service_def Let_def by auto

lemma only_events_create_windows_service:
  "(\<And>m. P (Print m)) \<Longrightarrow> (\<And>c. P (Run c))
   \<Longrightarrow> only_events P (create_windows_service w n u usr tok jar wd)"
  unfolding create_windows_service_def Let_def by auto

lemma only_events_install_agent_service:
  "(\<And>u h a. P (HttpGet u h a)) \<Longrightarrow> (\<And>m. P (LogError m)) \<Longrightarrow> (\<And>m. P (Print m))
   \<Longrightarrow> (\<And>p. P (MakeDirs p)) \<Longrightarrow> (\<And>p c. P (WriteFile p c)) \<Longrightarrow> (\<And>c. P (Run c))
   \<Longrightarrow> only_events P (install_agent_service w n u fs usr tok)"
  unfolding install_agent_service_def Let_def
  by (intro only_events_bind only_events_if only_events_download_agent_jar
        only_events_create_linux_service only_events_create_windows_service only_events_raise)
     auto

lemma registrations_get_csrf_token: "registrations (fst (get_csrf_token w u a)) = 0"
  by (rule registrations_none, rule only_events_get_csrf_token) simp_all

lemma registrations_check_agent_exists: "registrations (fst (check_agent_exists w u n h a)) = 0"
  by (rule registrations_none, rule only_events_check_agent_exists) simp_all

lemma registrations_install_agent_service:
  "registrations (fst (install_agent_service w n u fs usr tok)) = 0"
  by (rule registrations_none, rule only_events_install_agent_service) simp_all

lemma registrations_monitor_service: "registrations (fst (monitor_service w n)) = 0"
  by (rule registrations_none, rule only_events_monitor_service) simp_all

lemma fst_create_agent:
  "\<exists>t. fst (create_agent w u n h a fs l)
         = HttpPost (u @ ''/computer/doCreateItem'') h (create_agent_data w n fs l) (Some a) # t
       \<and> list_all (\<lambda>ev. \<not> is_post ev) t"
  by (cases "create_reply w")
     (simp_all add: create_agent_def requests_post_def raise_for_status_def io_defs Let_def)

lemma registrations_create_agent: "registrations (fst (create_agent w u n h a fs l)) = 1"
proof -
  obtain t where t: "fst (create_agent w u n h a fs l)
         = HttpPost (u @ ''/computer/doCreateItem'') h (create_agent_data w n fs l) (Some a) # t"
    and n: "list_all (\<lambda>ev. \<not> is_post ev) t"
    using fst_create_agent by blast
  from n have "filter is_post t = []" by (simp add: list_all_iff filter_empty_conv)
  with t show ?thesis by (simp add: registrations_def)
qed


lemmas registrations_steps =
  registrations_get_csrf_token registrations_check_agent_exists registrations_create_agent
  registrations_install_agent_service registrations_monitor_service

lemma registrations_main:
  "registrations (fst (main w)) = (if existence_check w = Some (Return False) then 1 else 0)"
proof (cases "cli w")
  case (Inl status)
  then show ?thesis
    by (simp add: main_def parse_arguments_def existence_check_def fst_try_except fst_bind_io
          snd_bind_io raise_io_def registrations_def)
next
  case (Inr a)
  then show ?thesis
    by (simp add: main_def parse_arguments_def existence_check_def fst_try_except snd_try_except
          fst_bind_io snd_bind_io fst_seq_io snd_seq_io return_io_def raise_io_def emit_def
          Let_def registrations_append registrations_steps
          split: outcome.splits)
       (simp add: registrations_def)
qed

lemma linux_host_csrf:
  "get_csrf_token linux_host ''http://ci:8080'' (''admin'', ''s3cret'')
     = ([HttpGet ''http://ci:8080/crumbIssuer/api/json'' [] (Some (''admin'', ''s3cret''))],
        Return (''Jenkins-Crumb'', ''abc123''))"
  by (simp add: get_csrf_token_def linux_host_def crumb_ok_def requests_get_def
        raise_for_status_def getitem_def io_defs)

lemma linux_host_existence_check: "existence_check linux_host = Some (Return False)"
proof -
  have c: "cli linux_host = Inr worker_args" by (simp add: linux_host_def)
  have r: "check_reply linux_host = Inr \<lparr>status_code = 404, reason = ''Not Found'', final_url = ''http://ci:8080/'',
          content = [], text_body = [],
          json_body = Inl (RequestException ''Expecting value: line 1 column 1 (char 0)'')\<rparr>"
    by (simp add: linux_host_def http_reply_def)
  show ?thesis
    unfolding existence_check_def c
    by (simp add: worker_args_def linux_host_csrf check_agent_exists_reply [OF r])
qed

text \<open>
  C2. In every run the number of calls of \<^verbatim>\<open>create_agent\<close> (the POST requests of
  the run) is 1 when \<^verbatim>\<open>check_agent_exists\<close> was reached and returned \<open>False\<close>,
  and 0 in every other case; so it is never called twice. When the status probe is
  answered with 404 it is called exactly once, and when it is answered with 200 it is not
  called.
\<close>

theorem registers_iff_absent:
  "registrations (fst (main w)) = (if existence_check w = Some (Return False) then 1 else 0)
   \<and> (existence_check w \<noteq> None \<and> check_reply w = Inr r \<and> status_code r = 404
        \<longrightarrow> registrations (fst (main w)) = 1)
   \<and> (existence_check w \<noteq> None \<and> check_reply w = Inr r \<and> status_code r = 200
        \<longrightarrow> registrations (fst (main w)) = 0)"
proof -
  have a: "existence_check w \<noteq> None \<Longrightarrow> check_reply w = Inr r \<Longrightarrow> status_code r = 404
           \<Longrightarrow> existence_check w = Some (Return False)"
    by (auto simp add: existence_check_def check_agent_exists_reply split: sum.splits outcome.splits)
  have b: "existence_check w \<noteq> None \<Longrightarrow> check_reply w = Inr r \<Longrightarrow> status_code r = 200
           \<Longrightarrow> existence_check w = Some (Return True)"
    by (auto simp add: existence_check_def check_agent_exists_reply split: sum.splits outcome.splits)
  show ?thesis using a b by (auto simp add: registrations_main)
qed


lemma registered_host_existence_check: "existence_check registered_host = Some (Return True)"
proof -
  have c: "cli registered_host = Inr worker_args" by (simp add: registered_host_def linux_host_def)
  have r: "check_reply registered_host
             = Inr \<lparr>status_code = 200, reason = ''OK'', final_url = ''http://ci:8080/'',
                    content = [], text_body = [],
                    json_body = Inl (RequestException ''Expecting value: line 1 column 1 (char 0)'')\<rparr>"
    by (simp add: registered_host_def http_reply_def)
  have t: "get_csrf_token registered_host ''http://ci:8080'' (''admin'', ''s3cret'')
             = get_csrf_token linux_host ''http://ci:8080'' (''admin'', ''s3cret'')"
    by (simp add: get_csrf_token_def registered_host_def)
  show ?thesis
    unfolding existence_check_def c
    by (simp add: worker_args_def t linux_host_csrf check_agent_exists_reply [OF r])
qed

theorem registers_iff_absent_witness:
  "existence_check linux_host \<noteq> None
   \<and> check_reply linux_host = http_reply 404 ''Not Found'' []
   \<and> existence_check linux_host = Some (Return False)
   \<and> registrations (fst (main linux_host)) = 1
   \<and> existence_check registered_host \<noteq> None
   \<and> check_reply registered_host = http_reply 200 ''OK'' []
   \<and> registrations (fst (main registered_host)) = 0"
proof -
  have a: "check_reply linux_host = http_reply 404 ''Not Found'' []"
    by (simp add: linux_host_def)
  have b: "check_reply registered_host = http_reply 200 ''OK'' []"
    by (simp add: registered_host_def)
  from registers_iff_absent [of linux_host]
  have x: "registrations (fst (main linux_host)) = 1"
    by (simp add: linux_host_existence_check)
  from registers_iff_absent [of registered_host]
  have y: "registrations (fst (main registered_host)) = 0"
    by (simp add: registered_host_existence_check)
  from a b x y show ?thesis
    by (simp add: linux_host_existence_check registered_host_existence_check)
qed

section \<open>Installing on a platform without a service manager branch\<close>

lemma install_unsupported:
  assumes "unsupported (platform_system w)"
  shows "install_agent_service w n u fs usr tok =
     (fst (download_agent_jar w u fs),
      (case snd (download_agent_jar w u fs) of
         Return jar_path \<Rightarrow> Raise (SystemExit (ExitMsg (''Unsupported platform: '' @ platform_system w)))
       | Raise e \<Rightarrow> Raise e
       | Polling \<Rightarrow> Polling))"
  using assms
  by (cases "download_agent_jar w u fs")
     (simp add: install_agent_service_def unsupported_def bind_io_def raise_io_def Let_def
        split: outcome.splits)


lemma download_agent_jar_returns:
  assumes "snd (download_agent_jar w u fs) = Return p"
  shows "p = path_join w fs ''agent.jar''
       \<and> (\<exists>r. jar_reply w = Inr r
              \<and> fst (download_agent_jar w u fs)
                  = (if remote_fs_exists w then []
                     else [MakeDirs fs, Print (''Directory '' @ fs @ '' created.'')])
                    @ [HttpGet (u @ ''/jnlpJars/agent.jar'') [] None, WriteFile p (content r),
                       Print (''Downloaded agent.jar to '' @ p)])"
  using assms
  by (cases "jar_reply w"; cases "makedirs_fault w"; cases "jar_write_fault w";
      cases "remote_fs_exists w")
     (auto simp add: download_agent_jar_def requests_get_def raise_for_status_def io_defs Let_def
        split: if_splits)


lemma darwin_host_install:
  "install_agent_service darwin_host ''worker-1'' ''http://ci:8080'' ''/opt/agent'' ''admin'' ''s3cret''
     = ([MakeDirs ''/opt/agent'', Print ''Directory /opt/agent created.'',
         HttpGet ''http://ci:8080/jnlpJars/agent.jar'' [] None,
         WriteFile ''/opt/agent/agent.jar'' ''PK-agent-jar'',
         Print ''Downloaded agent.jar to /opt/agent/agent.jar''],
        Raise (SystemExit (ExitMsg ''Unsupported platform: Darwin'')))"
  by (simp add: install_agent_service_def download_agent_jar_def darwin_host_def linux_host_def
        http_reply_def posix_join_def requests_get_def raise_for_status_def io_defs Let_def)

text \<open>
  C1, as stated, fails: on a host whose platform is Darwin, where the work directory is
  absent and the download succeeds, \<^verbatim>\<open>install_agent_service\<close> creates the
  directory and writes the artifact before it raises.
\<close>

theorem install_unsupported_has_effects:
  "unsupported (platform_system darwin_host)
   \<and> install_agent_service darwin_host ''worker-1'' ''http://ci:8080'' ''/opt/agent'' ''admin'' ''s3cret''
     = ([MakeDirs ''/opt/agent'', Print ''Directory /opt/agent created.'',
         HttpGet ''http://ci:8080/jnlpJars/agent.jar'' [] None,
         WriteFile ''/opt/agent/agent.jar'' ''PK-agent-jar'',
         Print ''Downloaded agent.jar to /opt/agent/agent.jar''],
        Raise (SystemExit (ExitMsg ''Unsupported platform: Darwin'')))
   \<and> is_makedirs (fst (install_agent_service darwin_host ''worker-1'' ''http://ci:8080''
                          ''/opt/agent'' ''admin'' ''s3cret'') ! 0)
   \<and> is_write (fst (install_agent_service darwin_host ''worker-1'' ''http://ci:8080''
                       ''/opt/agent'' ''admin'' ''s3cret'') ! 3)"
  by (simp add: darwin_host_install)
     (simp add: darwin_host_def linux_host_def unsupported_def)

text \<open>
  C1, amended. On a platform that is neither Linux nor Windows,
  \<^verbatim>\<open>install_agent_service\<close> never returns; it starts no subprocess and writes no
  file other than the downloaded artifact. It does exactly what \<^verbatim>\<open>download_agent_jar\<close>
  does and then fails: when the download returns, the work directory has been created if
  it was absent, the artifact has been written, and the error is
  "Unsupported platform: ..."; when the download raises, that error is the result.
\<close>

theorem install_unsupported_fetches_then_fails:
  assumes "unsupported (platform_system w)"
  shows "snd (install_agent_service w n u fs usr tok) \<noteq> Return ()
       \<and> snd (install_agent_service w n u fs usr tok) \<noteq> Polling
       \<and> only_events (\<lambda>ev. \<not> is_run ev) (install_agent_service w n u fs usr tok)
       \<and> only_events (\<lambda>ev. \<not> is_write ev \<or> (\<exists>c. ev = WriteFile (path_join w fs ''agent.jar'') c))
            (install_agent_service w n u fs usr tok)
       \<and> fst (install_agent_service w n u fs usr tok) = fst (download_agent_jar w u fs)
       \<and> (\<forall>p. snd (download_agent_jar w u fs) = Return p \<longrightarrow>
             snd (install_agent_service w n u fs usr tok)
               = Raise (SystemExit (ExitMsg (''Unsupported platform: '' @ platform_system w)))
             \<and> (\<exists>r. jar_reply w = Inr r
                    \<and> fst (install_agent_service w n u fs usr tok)
                        = (if remote_fs_exists w then []
                           else [MakeDirs fs, Print (''Directory '' @ fs @ '' created.'')])
                          @ [HttpGet (u @ ''/jnlpJars/agent.jar'') [] None,
                             WriteFile (path_join w fs ''agent.jar'') (content r),
                             Print (''Downloaded agent.jar to '' @ path_join w fs ''agent.jar'')]))
       \<and> (\<forall>e. snd (download_agent_jar w u fs) = Raise e \<longrightarrow>
             snd (install_agent_service w n u fs usr tok) = Raise e)"
proof -
  note i = install_unsupported [OF assms, of n u fs usr tok]
  have a: "snd (install_agent_service w n u fs usr tok) \<noteq> Return ()"
    by (simp add: i split: outcome.splits)
  have b: "snd (install_agent_service w n u fs usr tok) \<noteq> Polling"
    using download_agent_jar_not_polling [of w u fs] by (simp add: i split: outcome.splits)
  have t: "fst (install_agent_service w n u fs usr tok) = fst (download_agent_jar w u fs)"
    by (simp add: i)
  have c: "only_events (\<lambda>ev. \<not> is_run ev) (download_agent_jar w u fs)"
    by (rule only_events_download_agent_jar) simp_all
  have d: "only_events (\<lambda>ev. \<not> is_write ev \<or> (\<exists>c. ev = WriteFile (path_join w fs ''agent.jar'') c))
             (download_agent_jar w u fs)"
    by (rule only_events_download_agent_jar) simp_all
  have e: "snd (download_agent_jar w u fs) = Return p \<Longrightarrow>
             snd (install_agent_service w n u fs usr tok)
               = Raise (SystemExit (ExitMsg (''Unsupported platform: '' @ platform_system w)))
             \<and> (\<exists>r. jar_reply w = Inr r
                    \<and> fst (install_agent_service w n u fs usr tok)
                        = (if remote_fs_exists w then []
                           else [MakeDirs fs, Print (''Directory '' @ fs @ '' created.'')])
                          @ [HttpGet (u @ ''/jnlpJars/agent.jar'') [] None,
                             WriteFile (path_join w fs ''agent.jar'') (content r),
                             Print (''Downloaded agent.jar to '' @ path_join w fs ''agent.jar'')])" for p
    using download_agent_jar_returns [of w u fs p] by (auto simp add: i)
  have f: "snd (download_agent_jar w u fs) = Raise x \<Longrightarrow>
             snd (install_agent_service w n u fs usr tok) = Raise x" for x
    by (simp add: i)
  from a b c d e f t show ?thesis
    by (simp add: only_events_def)
qed

theorem install_unsupported_fetches_then_fails_witness:
  "unsupported (platform_system darwin_host)
   \<and> snd (download_agent_jar darwin_host ''http://ci:8080'' ''/opt/agent'') = Return ''/opt/agent/agent.jar''
   \<and> snd (install_agent_service darwin_host ''worker-1'' ''http://ci:8080'' ''/opt/agent''
             ''admin'' ''s3cret'')
       = Raise (SystemExit (ExitMsg (''Unsupported platform: '' @ platform_system darwin_host)))
   \<and> only_events (\<lambda>ev. \<not> is_run ev)
        (install_agent_service darwin_host ''worker-1'' ''http://ci:8080'' ''/opt/agent''
           ''admin'' ''s3cret'')
   \<and> unsupported (platform_system offline_darwin_host)
   \<and> snd (download_agent_jar offline_darwin_host ''http://ci:8080'' ''/opt/agent'')
       = Raise (SystemExit (ExitMsg ''Error downloading agent.jar: Connection refused''))
   \<and> snd (install_agent_service offline_darwin_host ''worker-1'' ''http://ci:8080'' ''/opt/agent''
             ''admin'' ''s3cret'')
       = Raise (SystemExit (ExitMsg ''Error downloading agent.jar: Connection refused''))"
proof -
  have u: "unsupported (platform_system darwin_host)"
    by (simp add: darwin_host_def linux_host_def unsupported_def)
  have d: "snd (download_agent_jar darwin_host ''http://ci:8080'' ''/opt/agent'')
             = Return ''/opt/agent/agent.jar''"
    by (simp add: download_agent_jar_def darwin_host_def linux_host_def
        http_reply_def posix_join_def requests_get_def raise_for_status_def io_defs Let_def)
  have u': "unsupported (platform_system offline_darwin_host)"
    by (simp add: offline_darwin_host_def darwin_host_def linux_host_def unsupported_def)
  have d': "snd (download_agent_jar offline_darwin_host ''http://ci:8080'' ''/opt/agent'')
             = Raise (SystemExit (ExitMsg ''Error downloading agent.jar: Connection refused''))"
    by (simp add: download_agent_jar_def offline_darwin_host_def darwin_host_def linux_host_def
        posix_join_def requests_get_def io_defs Let_def)
  from u d u' d'
    install_unsupported_fetches_then_fails
      [OF u, of "''worker-1''" "''http://ci:8080''" "''/opt/agent''" "''admin''" "''s3cret''"]
    install_unsupported_fetches_then_fails
      [OF u', of "''worker-1''" "''http://ci:8080''" "''/opt/agent''" "''admin''" "''s3cret''"]
  show ?thesis by blast
qed

section \<open>The monitor loop\<close>

lemma status_cmd_unsupported: "unsupported p \<Longrightarrow> service_status_cmd_of p n = []"
  by (simp add: unsupported_def service_status_cmd_of_def)

lemma monitor_cycle_no_command:
  "monitor_cycle env n [] c = ([Run []], Raise (OtherError ''list index out of range''))"
  by (simp add: monitor_cycle_def subprocess_run_def io_defs)

lemma monitor_service_unsupported:
  assumes "unsupported (platform_system w)"
  shows "monitor_service w n =
     (case cycles w of
        [] \<Rightarrow> ([], Polling)
      | c # cs \<Rightarrow>
          ([Run [], LogError ''Failed to monitor the service: list index out of range''],
           Raise (SystemExit (ExitMsg ''Error monitoring service: list index out of range''))))"
  by (cases "cycles w")
     (simp_all add: monitor_service_def status_cmd_unsupported [OF assms] monitor_cycle_no_command
        Let_def try_except_def seq_io_def bind_io_def emit_def raise_io_def)

text \<open>
  C10. On a platform that is neither Linux nor Windows the status command of
  \<^verbatim>\<open>monitor_service\<close> is the empty list. The monitor then never opens a mail
  session and never reports the service as running, however long it is observed; and as
  soon as it polls at all, the call of \<^verbatim>\<open>subprocess.run\<close> raises, the handler of
  \<^verbatim>\<open>monitor_service\<close> logs the fault and the process exits with status 1.
\<close>

theorem monitor_unsupported_never_polls:
  assumes "unsupported (platform_system w)"
  shows "service_status_cmd_of (platform_system w) n = []
       \<and> only_events (\<lambda>ev. \<not> is_smtp ev \<and> \<not> is_running_report n ev) (monitor_service w n)
       \<and> (cycles w \<noteq> [] \<longrightarrow>
            monitor_service w n
              = ([Run [], LogError ''Failed to monitor the service: list index out of range''],
                 Raise (SystemExit (ExitMsg ''Error monitoring service: list index out of range'')))
            \<and> exit_status (snd (monitor_service w n)) = Some 1)"
  by (cases "cycles w")
     (simp_all add: monitor_service_unsupported [OF assms] status_cmd_unsupported [OF assms]
        only_events_def)

theorem monitor_unsupported_never_polls_witness:
  "unsupported (platform_system darwin_host) \<and> cycles darwin_host \<noteq> []
   \<and> monitor_service darwin_host ''worker-1''
       = ([Run [], LogError ''Failed to monitor the service: list index out of range''],
          Raise (SystemExit (ExitMsg ''Error monitoring service: list index out of range'')))"
proof -
  have u: "unsupported (platform_system darwin_host)"
    by (simp add: darwin_host_def linux_host_def unsupported_def)
  have c: "cycles darwin_host \<noteq> []"
    by (simp add: darwin_host_def linux_host_def)
  from u c monitor_unsupported_never_polls [OF u, of "''worker-1''"] show ?thesis by blast
qed


lemma send_email_ok:
  assumes "smtp_port env = Inr port"
  shows "send_email env None subject body =
     ([SmtpConnect (smtp_server env) port, SmtpStartTls,
       SmtpLogin (smtp_user env) (smtp_password env),
       SmtpSendmail (email_from env) (email_to env) subject body, SmtpQuit,
       Print (''Alert email sent to '' @ email_to env)], Return ())"
  by (simp add: send_email_def smtp_step_def assms io_defs)

lemma monitor_cycle_running:
  assumes "cmd \<noteq> []" and "probe c = Inr 0"
  shows "monitor_cycle env n cmd c =
     ([Run cmd,
       LogInfo (''The Jenkins agent service '' @ quoted n @ '' is running normally.''),
       Print (''The Jenkins agent service '' @ quoted n @ '' is running normally.''),
       Sleep 20], Return ())"
  using assms by (simp add: monitor_cycle_def subprocess_run_def io_defs)

lemma monitor_cycle_failed_notified:
  assumes "cmd \<noteq> []" and "failed_and_notified env c" and "smtp_port env = Inr port"
  shows "monitor_cycle env n cmd c =
     ([Run cmd, SmtpConnect (smtp_server env) port, SmtpStartTls,
       SmtpLogin (smtp_user env) (smtp_password env),
       SmtpSendmail (email_from env) (email_to env) (''Service Failure: '' @ n)
         (''The Jenkins agent service '' @ quoted n @ '' has failed or stopped unexpectedly.''),
       SmtpQuit, Print (''Alert email sent to '' @ email_to env), Sleep 20], Return ())"
proof -
  from assms(2) obtain rc where rc: "probe c = Inr rc" "rc \<noteq> 0" and f: "smtp_fault c = None"
    by (auto simp add: failed_and_notified_def split: sum.splits)
  show ?thesis
    using assms(1) rc f
    by (simp add: monitor_cycle_def subprocess_run_def send_email_ok [OF assms(3)]
          seq_io_def bind_io_def emit_def return_io_def Let_def)
qed

lemma failed_and_notified_port:
  "failed_and_notified env c \<Longrightarrow> \<exists>port. smtp_port env = Inr port"
  by (auto simp add: failed_and_notified_def split: sum.splits)

lemma notifications_append: "notifications (a @ b) = notifications a + notifications b"
  by (simp add: notifications_def)

lemma monitor_cycle_completes:
  assumes "cmd \<noteq> []" and "completes env c"
  shows "snd (monitor_cycle env n cmd c) = Return ()
       \<and> notifications (fst (monitor_cycle env n cmd c))
           = (if failed_and_notified env c then 1 else 0)"
proof (cases "failed_and_notified env c")
  case True
  then obtain port where "smtp_port env = Inr port" using failed_and_notified_port by blast
  with True assms(1) show ?thesis
    by (simp add: monitor_cycle_failed_notified notifications_def)
next
  case False
  with assms(2) have "probe c = Inr 0" by (simp add: completes_def)
  with False assms(1) show ?thesis
    by (simp add: monitor_cycle_running notifications_def)
qed

lemma while_true_returns:
  assumes "snd (body c) = Return ()"
  shows "while_true body (c # cs) = (fst (body c) @ fst (while_true body cs), snd (while_true body cs))"
  using assms by (cases "body c"; cases "while_true body cs") simp

lemma while_true_completes:
  assumes "cmd \<noteq> []" and "list_all (completes env) cs"
  shows "snd (while_true (monitor_cycle env n cmd) cs) = Polling
       \<and> notifications (fst (while_true (monitor_cycle env n cmd) cs))
           = length (filter (failed_and_notified env) cs)"
  using assms(2)
proof (induction cs)
  case Nil
  show ?case by (simp add: notifications_def)
next
  case (Cons c cs)
  then have c: "completes env c" and cs: "list_all (completes env) cs" by simp_all
  note m = monitor_cycle_completes [OF assms(1) c, of n]
  from m have r: "snd (monitor_cycle env n cmd c) = Return ()" by simp
  show ?case
    using Cons.IH [OF cs] m
    by (simp add: while_true_returns [of "monitor_cycle env n cmd" c cs, OF r]
          notifications_append del: while_true.simps)
qed

lemma monitor_service_polling:
  assumes "snd (while_true (monitor_cycle (mail w) n (service_status_cmd_of (platform_system w) n))
                  (cycles w)) = Polling"
  shows "monitor_service w n
           = while_true (monitor_cycle (mail w) n (service_status_cmd_of (platform_system w) n))
               (cycles w)"
  using assms
  by (cases "while_true (monitor_cycle (mail w) n (service_status_cmd_of (platform_system w) n))
               (cycles w)")
     (simp add: monitor_service_def Let_def try_except_def)

text \<open>
  C5. On a Linux or Windows host, a poll whose status command ends with a non-zero code
  and whose mail goes through sends exactly one message, with the subject
  "Service Failure: " followed by the service name, sleeps and returns, so that the loop
  goes on with the next poll. A second such poll sends a second message; and over any
  sequence of polls that the loop survives, the number of messages is the number of
  failed polls, and the loop is still polling at the end.
\<close>

theorem failed_poll_alerts_and_continues:
  assumes "\<not> unsupported (platform_system w)"
    and "failed_and_notified (mail w) c"
    and "smtp_port (mail w) = Inr port"
  shows "monitor_cycle (mail w) n (service_status_cmd_of (platform_system w) n) c =
           ([Run (service_status_cmd_of (platform_system w) n),
             SmtpConnect (smtp_server (mail w)) port, SmtpStartTls,
             SmtpLogin (smtp_user (mail w)) (smtp_password (mail w)),
             SmtpSendmail (email_from (mail w)) (email_to (mail w)) (''Service Failure: '' @ n)
               (''The Jenkins agent service '' @ quoted n
                @ '' has failed or stopped unexpectedly.''),
             SmtpQuit, Print (''Alert email sent to '' @ email_to (mail w)), Sleep 20], Return ())
       \<and> notifications (fst (monitor_cycle (mail w) n
                                (service_status_cmd_of (platform_system w) n) c)) = 1
       \<and> while_true (monitor_cycle (mail w) n (service_status_cmd_of (platform_system w) n)) (c # cs)
           = (fst (monitor_cycle (mail w) n (service_status_cmd_of (platform_system w) n) c)
              @ fst (while_true (monitor_cycle (mail w) n
                                   (service_status_cmd_of (platform_system w) n)) cs),
              snd (while_true (monitor_cycle (mail w) n
                                 (service_status_cmd_of (platform_system w) n)) cs))
       \<and> (failed_and_notified (mail w) c' \<longrightarrow>
            notifications (fst (while_true (monitor_cycle (mail w) n
                                  (service_status_cmd_of (platform_system w) n)) [c, c'])) = 2)
       \<and> (list_all (completes (mail w)) (cycles w) \<longrightarrow>
            snd (monitor_service w n) = Polling
            \<and> notifications (fst (monitor_service w n))
                = length (filter (failed_and_notified (mail w)) (cycles w)))"
proof -
  let ?cmd = "service_status_cmd_of (platform_system w) n"
  let ?body = "monitor_cycle (mail w) n ?cmd"
  have cmd: "?cmd \<noteq> []" by (rule status_cmd_nonempty [OF assms(1)])
  note one = monitor_cycle_failed_notified [OF cmd assms(2) assms(3), of n]
  have a: "notifications (fst (?body c)) = 1" by (simp add: one notifications_def)
  have r: "snd (?body c) = Return ()" by (simp add: one)
  note b = while_true_returns [of ?body c cs, OF r]
  have d: "notifications (fst (while_true ?body [c, c'])) = 2" if "failed_and_notified (mail w) c'"
  proof -
    have "list_all (completes (mail w)) [c, c']"
      using assms(2) that by (simp add: completes_def)
    from while_true_completes [OF cmd this, of n] assms(2) that show ?thesis by simp
  qed
  have e: "snd (monitor_service w n) = Polling
         \<and> notifications (fst (monitor_service w n))
             = length (filter (failed_and_notified (mail w)) (cycles w))"
    if "list_all (completes (mail w)) (cycles w)"
  proof -
    note wt = while_true_completes [OF cmd that, of n]
    from wt have "snd (while_true ?body (cycles w)) = Polling" by simp
    from monitor_service_polling [OF this] wt show ?thesis by simp
  qed
  from one a b d e show ?thesis by blast
qed


theorem failed_poll_alerts_and_continues_witness:
  "\<not> unsupported (platform_system linux_host)
   \<and> failed_and_notified (mail linux_host) \<lparr>probe = Inr 3, smtp_fault = None\<rparr>
   \<and> smtp_port (mail linux_host) = Inr 587
   \<and> list_all (completes (mail linux_host)) (cycles linux_host)
   \<and> notifications (fst (monitor_cycle (mail linux_host) ''worker-1''
                            (service_status_cmd_of (platform_system linux_host) ''worker-1'')
                            \<lparr>probe = Inr 3, smtp_fault = None\<rparr>)) = 1
   \<and> snd (monitor_service linux_host ''worker-1'') = Polling
   \<and> notifications (fst (monitor_service linux_host ''worker-1'')) = 2"
proof -
  have u: "\<not> unsupported (platform_system linux_host)"
    by (simp add: linux_host_def unsupported_def)
  have p: "smtp_port (mail linux_host) = Inr 587"
    by (simp add: linux_host_def ops_mail_def)
  have f: "failed_and_notified (mail linux_host) \<lparr>probe = Inr 3, smtp_fault = None\<rparr>"
    by (simp add: failed_and_notified_def p)
  have m: "mail linux_host = ops_mail" by (simp add: linux_host_def)
  have c: "cycles linux_host = [\<lparr>probe = Inr 0, smtp_fault = None\<rparr>,
                \<lparr>probe = Inr 3, smtp_fault = None\<rparr>,
                \<lparr>probe = Inr 3, smtp_fault = None\<rparr>]"
    by (simp add: linux_host_def)
  have q: "smtp_port ops_mail = Inr 587" by (simp add: ops_mail_def)
  have l: "list_all (completes (mail linux_host)) (cycles linux_host)"
    by (simp add: c m completes_def failed_and_notified_def q)
  have k: "length (filter (failed_and_notified (mail linux_host)) (cycles linux_host)) = 2"
    by (simp add: c m failed_and_notified_def q)
  note t = failed_poll_alerts_and_continues
    [OF u f p, of "''worker-1''" "[]" "\<lparr>probe = Inr 3, smtp_fault = None\<rparr>"]
  from t have a: "notifications (fst (monitor_cycle (mail linux_host) ''worker-1''
                            (service_status_cmd_of (platform_system linux_host) ''worker-1'')
                            \<lparr>probe = Inr 3, smtp_fault = None\<rparr>)) = 1"
    by blast
  from t l have e: "snd (monitor_service linux_host ''worker-1'') = Polling
      \<and> notifications (fst (monitor_service linux_host ''worker-1''))
          = length (filter (failed_and_notified (mail linux_host)) (cycles linux_host))"
    by blast
  from e k have e2: "snd (monitor_service linux_host ''worker-1'') = Polling
      \<and> notifications (fst (monitor_service linux_host ''worker-1'')) = 2"
    by simp
  from u f p l a e2 show ?thesis by blast
qed

lemma send_email_fails:
  assumes "is_Exception e" and "smtp_port env = Inr port"
  shows "\<exists>t. send_email env (Some (stage, e)) subject body
             = (t @ [LogError (''Failed to send email alert: '' @ str_exn e)],
                Raise (SystemExit (ExitMsg (''Error sending email: '' @ str_exn e))))"
  using assms
  by (cases stage) (simp_all add: send_email_def smtp_step_def io_defs)

lemma monitor_cycle_failed:
  assumes "cmd \<noteq> []" and "probe c = Inr rc" and "rc \<noteq> 0"
  shows "monitor_cycle env n cmd c =
     seq_io (emit (Run cmd))
    (seq_io (send_email env (smtp_fault c) (''Service Failure: '' @ n)
               (''The Jenkins agent service '' @ quoted n
                @ '' has failed or stopped unexpectedly.''))
            (emit (Sleep 20)))"
  using assms
  by (simp add: monitor_cycle_def subprocess_run_def io_defs Let_def
           split: prod.splits outcome.splits)

lemma monitor_cycle_mail_fails:
  assumes "cmd \<noteq> []" and "probe c = Inr rc" and "rc \<noteq> 0"
    and "smtp_fault c = Some (stage, e)" and "is_Exception e" and "smtp_port env = Inr port"
  shows "\<exists>t. monitor_cycle env n cmd c
             = (t @ [LogError (''Failed to send email alert: '' @ str_exn e)],
                Raise (SystemExit (ExitMsg (''Error sending email: '' @ str_exn e))))"
proof -
  obtain t where t: "send_email env (Some (stage, e)) (''Service Failure: '' @ n)
      (''The Jenkins agent service '' @ quoted n @ '' has failed or stopped unexpectedly.'')
             = (t @ [LogError (''Failed to send email alert: '' @ str_exn e)],
                Raise (SystemExit (ExitMsg (''Error sending email: '' @ str_exn e))))"
    using send_email_fails [OF assms(5) assms(6)] by blast
  have "monitor_cycle env n cmd c
          = ((Run cmd # t) @ [LogError (''Failed to send email alert: '' @ str_exn e)],
             Raise (SystemExit (ExitMsg (''Error sending email: '' @ str_exn e))))"
    unfolding monitor_cycle_failed [OF assms(1-3)] assms(4) t
    by (simp add: seq_io_def bind_io_def emit_def)
  then show ?thesis by blast
qed

lemma while_true_append:
  assumes "cmd \<noteq> []" and "list_all (completes env) pre"
  shows "while_true (monitor_cycle env n cmd) (pre @ cs)
           = (fst (while_true (monitor_cycle env n cmd) pre)
              @ fst (while_true (monitor_cycle env n cmd) cs),
              snd (while_true (monitor_cycle env n cmd) cs))"
  using assms(2)
proof (induction pre)
  case Nil
  show ?case by simp
next
  case (Cons c pre)
  then have c: "completes env c" and pre: "list_all (completes env) pre" by simp_all
  from monitor_cycle_completes [OF assms(1) c, of n]
  have r: "snd (monitor_cycle env n cmd c) = Return ()" by simp
  show ?case
    using Cons.IH [OF pre]
    by (simp add: while_true_returns [of "monitor_cycle env n cmd" c, OF r]
          del: while_true.simps)
qed

lemma monitor_service_mail_fails:
  assumes "\<not> unsupported (platform_system w)"
    and "cycles w = pre @ c # rest" and "list_all (completes (mail w)) pre"
    and "probe c = Inr rc" and "rc \<noteq> 0"
    and "smtp_fault c = Some (stage, e)" and "is_Exception e" and "smtp_port (mail w) = Inr port"
  shows "\<exists>t. monitor_service w n
             = (t @ [LogError (''Failed to send email alert: '' @ str_exn e)],
                Raise (SystemExit (ExitMsg (''Error sending email: '' @ str_exn e))))"
proof -
  let ?cmd = "service_status_cmd_of (platform_system w) n"
  let ?body = "monitor_cycle (mail w) n ?cmd"
  have cmd: "?cmd \<noteq> []" by (rule status_cmd_nonempty [OF assms(1)])
  obtain t where t: "?body c
             = (t @ [LogError (''Failed to send email alert: '' @ str_exn e)],
                Raise (SystemExit (ExitMsg (''Error sending email: '' @ str_exn e))))"
    using monitor_cycle_mail_fails [OF cmd assms(4-8)] by blast
  have "while_true ?body (c # rest) = ?body c"
    by (simp add: t)
  with while_true_append [OF cmd assms(3), of n "c # rest"]
  have "while_true ?body (cycles w)
          = ((fst (while_true ?body pre) @ t)
             @ [LogError (''Failed to send email alert: '' @ str_exn e)],
             Raise (SystemExit (ExitMsg (''Error sending email: '' @ str_exn e))))"
    by (simp add: assms(2) t)
  then have "monitor_service w n
          = ((fst (while_true ?body pre) @ t)
             @ [LogError (''Failed to send email alert: '' @ str_exn e)],
             Raise (SystemExit (ExitMsg (''Error sending email: '' @ str_exn e))))"
    by (simp add: monitor_service_def Let_def try_except_def)
  then show ?thesis by blast
qed

lemma main_after_provisioning:
  assumes "provisioned w a"
  shows "snd (main w) =
     (case snd (monitor_service w (args_agent_name a)) of
        Return u \<Rightarrow> Return ()
      | Raise e \<Rightarrow> if is_KeyboardInterrupt e then Raise (SystemExit (ExitCode 1)) else Raise e
      | Polling \<Rightarrow> Polling)"
  using assms
  by (auto simp add: provisioned_def main_def parse_arguments_def snd_try_except snd_bind_io
        snd_seq_io return_io_def raise_io_def emit_def Let_def
        split: outcome.splits)


text \<open>
  C4. When the mail session raises an exception at any stage (connecting, TLS, login,
  sending, closing), \<^verbatim>\<open>send_email\<close> logs "Failed to send email alert: ..." and
  raises \<^verbatim>\<open>SystemExit\<close> with a message, i.e. exit status 1. Inside the monitor
  loop the handler of \<^verbatim>\<open>monitor_service\<close> (which catches \<^verbatim>\<open>Exception\<close>) does
  not catch it, and neither does \<^verbatim>\<open>main\<close>: the run ends with that
  \<^verbatim>\<open>SystemExit\<close> and status 1.
\<close>

theorem send_failure_is_fatal:
  assumes "is_Exception e" and "smtp_port env = Inr port"
  shows "snd (send_email env (Some (stage, e)) subject body)
           = Raise (SystemExit (ExitMsg (''Error sending email: '' @ str_exn e)))
       \<and> last (fst (send_email env (Some (stage, e)) subject body))
           = LogError (''Failed to send email alert: '' @ str_exn e)
       \<and> exit_status (snd (send_email env (Some (stage, e)) subject body)) = Some 1
       \<and> (\<not> unsupported (platform_system w) \<and> mail w = env \<and> cycles w = pre @ c # rest
            \<and> list_all (completes env) pre \<and> probe c = Inr rc \<and> rc \<noteq> 0
            \<and> smtp_fault c = Some (stage, e) \<longrightarrow>
            snd (monitor_service w n)
              = Raise (SystemExit (ExitMsg (''Error sending email: '' @ str_exn e)))
            \<and> last (fst (monitor_service w n))
                = LogError (''Failed to send email alert: '' @ str_exn e)
            \<and> (provisioned w a \<and> args_agent_name a = n \<longrightarrow>
                 snd (main w) = Raise (SystemExit (ExitMsg (''Error sending email: '' @ str_exn e)))
                 \<and> exit_status (snd (main w)) = Some 1))"
proof -
  obtain t where t: "send_email env (Some (stage, e)) subject body
             = (t @ [LogError (''Failed to send email alert: '' @ str_exn e)],
                Raise (SystemExit (ExitMsg (''Error sending email: '' @ str_exn e))))"
    using send_email_fails [OF assms] by blast
  have a: "snd (send_email env (Some (stage, e)) subject body)
           = Raise (SystemExit (ExitMsg (''Error sending email: '' @ str_exn e)))
       \<and> last (fst (send_email env (Some (stage, e)) subject body))
           = LogError (''Failed to send email alert: '' @ str_exn e)
       \<and> exit_status (snd (send_email env (Some (stage, e)) subject body)) = Some 1"
    by (simp add: t)
  have b: "snd (monitor_service w n)
              = Raise (SystemExit (ExitMsg (''Error sending email: '' @ str_exn e)))
            \<and> last (fst (monitor_service w n))
                = LogError (''Failed to send email alert: '' @ str_exn e)
            \<and> (provisioned w a \<and> args_agent_name a = n \<longrightarrow>
                 snd (main w) = Raise (SystemExit (ExitMsg (''Error sending email: '' @ str_exn e)))
                 \<and> exit_status (snd (main w)) = Some 1)"
    if h: "\<not> unsupported (platform_system w)" "mail w = env" "cycles w = pre @ c # rest"
      "list_all (completes env) pre" "probe c = Inr rc" "rc \<noteq> 0"
      "smtp_fault c = Some (stage, e)"
  proof -
    have l: "list_all (completes (mail w)) pre" using h(2) h(4) by simp
    have p: "smtp_port (mail w) = Inr port" using h(2) assms(2) by simp
    obtain u where u: "monitor_service w n
             = (u @ [LogError (''Failed to send email alert: '' @ str_exn e)],
                Raise (SystemExit (ExitMsg (''Error sending email: '' @ str_exn e))))"
      using monitor_service_mail_fails [OF h(1) h(3) l h(5) h(6) h(7) assms(1) p] by blast
    have m: "snd (main w) = Raise (SystemExit (ExitMsg (''Error sending email: '' @ str_exn e)))"
      if "provisioned w a" "args_agent_name a = n"
      using main_after_provisioning [OF that(1)] that(2) by (simp add: u)
    show ?thesis using m by (simp add: u)
  qed
  from a b show ?thesis by blast
qed

lemma mail_down_host_provisioned: "provisioned mail_down_host worker_args"
  by (simp add: provisioned_def mail_down_host_def linux_host_def worker_args_def crumb_ok_def
        http_reply_def posix_join_def get_csrf_token_def check_agent_exists_def create_agent_def
        create_agent_data_def get_headers_def install_agent_service_def download_agent_jar_def
        create_linux_service_def strip_trailing_slash_def endswith_slash_def
        subprocess_run_check_def requests_get_def requests_post_def raise_for_status_def
        getitem_def io_defs Let_def)

theorem send_failure_is_fatal_witness:
  "is_Exception (OtherError ''(535, Authentication failed)'')
   \<and> smtp_port ops_mail = Inr 587
   \<and> \<not> unsupported (platform_system mail_down_host) \<and> mail mail_down_host = ops_mail
   \<and> provisioned mail_down_host worker_args
   \<and> snd (monitor_service mail_down_host ''worker-1'')
       = Raise (SystemExit (ExitMsg (''Error sending email: ''
                                     @ str_exn (OtherError ''(535, Authentication failed)''))))
   \<and> snd (main mail_down_host)
       = Raise (SystemExit (ExitMsg (''Error sending email: ''
                                     @ str_exn (OtherError ''(535, Authentication failed)''))))
   \<and> exit_status (snd (main mail_down_host)) = Some 1"
proof -
  let ?e = "OtherError ''(535, Authentication failed)''"
  let ?c = "\<lparr>probe = Inr 3, smtp_fault = Some (Login, ?e)\<rparr>"
  have e: "is_Exception ?e" by simp
  have p: "smtp_port ops_mail = Inr 587" by (simp add: ops_mail_def)
  have u: "\<not> unsupported (platform_system mail_down_host)"
    by (simp add: mail_down_host_def linux_host_def unsupported_def)
  have m: "mail mail_down_host = ops_mail" by (simp add: mail_down_host_def linux_host_def)
  have c: "cycles mail_down_host
             = [\<lparr>probe = Inr 0, smtp_fault = None\<rparr>] @ ?c # [\<lparr>probe = Inr 0, smtp_fault = None\<rparr>]"
    by (simp add: mail_down_host_def)
  have l: "list_all (completes ops_mail) [\<lparr>probe = Inr 0, smtp_fault = None\<rparr>]"
    by (simp add: completes_def)
  have f: "probe ?c = Inr 3 \<and> (3::int) \<noteq> 0 \<and> smtp_fault ?c = Some (Login, ?e)" by simp
  have n: "args_agent_name worker_args = ''worker-1''" by (simp add: worker_args_def)
  note t = send_failure_is_fatal
    [where w = mail_down_host and pre = "[\<lparr>probe = Inr 0, smtp_fault = None\<rparr>]"
       and c = ?c and rest = "[\<lparr>probe = Inr 0, smtp_fault = None\<rparr>]" and rc = 3
       and stage = Login and n = "''worker-1''" and a = worker_args, OF e p]
  from t u m c l f mail_down_host_provisioned n
  have "snd (monitor_service mail_down_host ''worker-1'')
       = Raise (SystemExit (ExitMsg (''Error sending email: '' @ str_exn ?e)))
   \<and> snd (main mail_down_host)
       = Raise (SystemExit (ExitMsg (''Error sending email: '' @ str_exn ?e)))
   \<and> exit_status (snd (main mail_down_host)) = Some 1"
    by blast
  with e p u m mail_down_host_provisioned show ?thesis by blast
qed

section \<open>One poll of the monitor\<close>

text \<open>
  C3. On a Linux or Windows host one pass of the monitor loop is a function of the return
  code of the status command: with return code 0 it writes the informational line (to the
  log and to the standard output), opens no mail session, sleeps and returns; with any
  other return code it calls \<^verbatim>\<open>send_email\<close> with the fixed subject and body, sleeps
  if that returns, and never reports the service as running.
\<close>

theorem poll_by_returncode:
  assumes "\<not> unsupported p" and "probe c = Inr returncode"
  shows "monitor_cycle env n (service_status_cmd_of p n) c =
     (if returncode = 0 then
        ([Run (service_status_cmd_of p n),
          LogInfo (''The Jenkins agent service '' @ quoted n @ '' is running normally.''),
          Print (''The Jenkins agent service '' @ quoted n @ '' is running normally.''),
          Sleep 20], Return ())
      else
        seq_io (emit (Run (service_status_cmd_of p n)))
       (seq_io (send_email env (smtp_fault c) (''Service Failure: '' @ n)
                  (''The Jenkins agent service '' @ quoted n
                   @ '' has failed or stopped unexpectedly.''))
               (emit (Sleep 20))))
     \<and> only_events (if returncode = 0 then (\<lambda>ev. \<not> is_smtp ev)
                     else (\<lambda>ev. \<not> is_running_report n ev))
          (monitor_cycle env n (service_status_cmd_of p n) c)"
proof (cases "returncode = 0")
  case True
  with assms(2) have "probe c = Inr 0" by simp
  from monitor_cycle_running [OF status_cmd_nonempty [OF assms(1)] this] True
  show ?thesis by (simp add: only_events_def)
next
  case False
  note m = monitor_cycle_failed [OF status_cmd_nonempty [OF assms(1)] assms(2) False, of env n]
  have "only_events (\<lambda>ev. \<not> is_running_report n ev)
          (monitor_cycle env n (service_status_cmd_of p n) c)"
    unfolding m
    by (intro only_events_seq only_events_emit only_events_send_email) simp_all
  with False m show ?thesis by simp
qed

theorem poll_by_returncode_witness:
  "\<not> unsupported ''Linux'' \<and> probe \<lparr>probe = Inr 0, smtp_fault = None\<rparr> = Inr 0
   \<and> monitor_cycle ops_mail ''worker-1'' (service_status_cmd_of ''Linux'' ''worker-1'')
        \<lparr>probe = Inr 0, smtp_fault = None\<rparr>
      = ([Run [''systemctl'', ''is-active'', ''worker-1.service''],
          LogInfo ''The Jenkins agent service 'worker-1' is running normally.'',
          Print ''The Jenkins agent service 'worker-1' is running normally.'',
          Sleep 20], Return ())
   \<and> probe \<lparr>probe = Inr 3, smtp_fault = None\<rparr> = Inr 3
   \<and> monitor_cycle ops_mail ''worker-1'' (service_status_cmd_of ''Linux'' ''worker-1'')
        \<lparr>probe = Inr 3, smtp_fault = None\<rparr>
      = seq_io (emit (Run (service_status_cmd_of ''Linux'' ''worker-1'')))
       (seq_io (send_email ops_mail None (''Service Failure: '' @ ''worker-1'')
                  (''The Jenkins agent service '' @ quoted ''worker-1''
                   @ '' has failed or stopped unexpectedly.''))
               (emit (Sleep 20)))"
proof -
  have u: "\<not> unsupported ''Linux''" by (simp add: unsupported_def)
  have a: "probe \<lparr>probe = Inr 0, smtp_fault = None\<rparr> = Inr 0" by simp
  have b: "probe \<lparr>probe = Inr 3, smtp_fault = None\<rparr> = Inr 3" by simp
  from poll_by_returncode [OF u a, of ops_mail "''worker-1''"]
  have x: "monitor_cycle ops_mail ''worker-1'' (service_status_cmd_of ''Linux'' ''worker-1'')
        \<lparr>probe = Inr 0, smtp_fault = None\<rparr>
      = ([Run [''systemctl'', ''is-active'', ''worker-1.service''],
          LogInfo ''The Jenkins agent service 'worker-1' is running normally.'',
          Print ''The Jenkins agent service 'worker-1' is running normally.'',
          Sleep 20], Return ())"
    by (simp add: service_status_cmd_of_def)
  from poll_by_returncode [OF u b, of ops_mail "''worker-1''"]
  have y: "monitor_cycle ops_mail ''worker-1'' (service_status_cmd_of ''Linux'' ''worker-1'')
        \<lparr>probe = Inr 3, smtp_fault = None\<rparr>
      = seq_io (emit (Run (service_status_cmd_of ''Linux'' ''worker-1'')))
       (seq_io (send_email ops_mail None (''Service Failure: '' @ ''worker-1'')
                  (''The Jenkins agent service '' @ quoted ''worker-1''
                   @ '' has failed or stopped unexpectedly.''))
               (emit (Sleep 20)))"
    by simp
  from u a b x y show ?thesis by blast
qed

section \<open>The registration payload\<close>

lemma get_csrf_token_cli: "get_csrf_token (w\<lparr>cli := x\<rparr>) u a = get_csrf_token w u a"
  by (simp add: get_csrf_token_def)

lemma check_agent_exists_cli: "check_agent_exists (w\<lparr>cli := x\<rparr>) u n h a = check_agent_exists w u n h a"
  by (simp add: check_agent_exists_def split del: if_split cong: if_cong)

lemma create_agent_cli: "create_agent (w\<lparr>cli := x\<rparr>) u n h a fs l = create_agent w u n h a fs l"
  by (simp add: create_agent_def create_agent_data_def split del: if_split cong: if_cong)

lemma install_agent_service_cli:
  "install_agent_service (w\<lparr>cli := x\<rparr>) n u fs usr tok = install_agent_service w n u fs usr tok"
  by (simp add: install_agent_service_def download_agent_jar_def create_linux_service_def
        create_windows_service_def split del: if_split cong: if_cong)

lemma monitor_service_cli: "monitor_service (w\<lparr>cli := x\<rparr>) n = monitor_service w n"
  by (simp add: monitor_service_def)

lemma bind_io_return: "bind_io (return_io x) f = f x"
  by (cases "f x") (simp add: bind_io_def return_io_def)

lemma main_executors: "main (w\<lparr>cli := Inr (a\<lparr>args_executors := k\<rparr>)\<rparr>) = main (w\<lparr>cli := Inr a\<rparr>)"
  by (simp add: main_def parse_arguments_def get_csrf_token_cli check_agent_exists_cli
        create_agent_cli install_agent_service_cli monitor_service_cli bind_io_return Let_def
        split del: if_split cong: if_cong)

lemma hd_create_agent:
  "hd (fst (create_agent w u n h a fs l))
     = HttpPost (u @ ''/computer/doCreateItem'') h (create_agent_data w n fs l) (Some a)"
  using fst_create_agent [of w u n h a fs l] by auto

text \<open>
  C7. The payload that \<^verbatim>\<open>create_agent\<close> posts has \<^verbatim>\<open>numExecutors\<close> 1, the
  type \<^verbatim>\<open>hudson.slaves.DumbSlave\<close>, the retention strategy "Always" and the launcher
  \<^verbatim>\<open>hudson.slaves.JNLPLauncher\<close>, for every agent name, work directory and label.
  \<^verbatim>\<open>main\<close> never reads \<^verbatim>\<open>args.executors\<close>: a run with any other value of it
  is the same run, request for request.
\<close>

theorem payload_has_one_executor:
  "json_get (create_agent_json n fs l) ''numExecutors'' = Some (JInt 1)
   \<and> json_get (create_agent_json n fs l) ''retentionStrategy''
       = Some (JObj [(''stapler-class'', JStr ''hudson.slaves.RetentionStrategy$Always'')])
   \<and> Option.bind (json_get (create_agent_json n fs l) ''launcher'') (\<lambda>j. json_get j ''stapler-class'')
       = Some (JStr ''hudson.slaves.JNLPLauncher'')
   \<and> map_of (create_agent_data w n fs l) ''type'' = Some ''hudson.slaves.DumbSlave''
   \<and> map_of (create_agent_data w n fs l) ''json'' = Some (json_dumps w (create_agent_json n fs l))
   \<and> hd (fst (create_agent w u n h a fs l))
       = HttpPost (u @ ''/computer/doCreateItem'') h (create_agent_data w n fs l) (Some a)
   \<and> main (w\<lparr>cli := Inr (parsed\<lparr>args_executors := k\<rparr>)\<rparr>) = main (w\<lparr>cli := Inr parsed\<rparr>)"
  by (simp add: create_agent_json_def create_agent_data_def [of w n fs l] hd_create_agent main_executors)

theorem payload_has_one_executor_witness:
  "json_get (create_agent_json ''worker-1'' ''/opt/agent'' ''linux'') ''numExecutors'' = Some (JInt 1)
   \<and> args_executors worker_args = 4
   \<and> main (linux_host\<lparr>cli := Inr (worker_args\<lparr>args_executors := 1\<rparr>)\<rparr>)
       = main (linux_host\<lparr>cli := Inr worker_args\<rparr>)"
  using payload_has_one_executor
    [where n = "''worker-1''" and fs = "''/opt/agent''" and l = "''linux''" and w = linux_host
       and parsed = worker_args and k = 1]
  by (simp add: worker_args_def)


section \<open>The unit file, read back\<close>


lemma split_lines_nonempty: "split_lines s \<noteq> []"
  by (induction s) (auto split: list.splits)

lemma split_lines_prepend:
  "LF \<notin> set a \<Longrightarrow>
   split_lines (a @ r) = (a @ hd (split_lines r)) # tl (split_lines r)"
proof (induction a)
  case Nil
  show ?case using split_lines_nonempty [of r] by simp
next
  case (Cons c a)
  then show ?case using split_lines_nonempty [of r] by (auto split: list.splits)
qed

lemma parse_service_content:
  assumes "LF \<notin> set (exec_command n u usr tok jar wd)"
  shows "spec_parse_exec_start (service_content n u usr tok jar wd)
           = Some (exec_command n u usr tok jar wd)"
  using assms
  by (simp add: spec_parse_exec_start_def service_content_def exec_command_def
        split_lines_prepend)


lemma fst_create_linux_service:
  "\<exists>t. fst (create_linux_service w n u0 usr tok jar wd)
         = Print (exec_command n (strip_trailing_slash u0) usr tok jar wd)
           # WriteFile (''/etc/systemd/system/'' @ n @ ''.service'')
               (service_content n (strip_trailing_slash u0) usr tok jar wd)
           # t"
  by (simp add: create_linux_service_def Let_def fst_seq_io snd_seq_io fst_try_except
        snd_try_except emit_def split: outcome.splits)

text \<open>
  C8, as stated, fails: with a work directory that contains a line feed, the
  \<^verbatim>\<open>ExecStart\<close> line of the rendered unit file ends at the line feed, and reading
  it back gives a shorter command than the one that was embedded.
\<close>

theorem unit_file_round_trip_breaks:
  "spec_parse_exec_start
     (service_content ''worker-1'' ''http://ci:8080'' ''admin'' ''s3cret'' ''/opt/agent/agent.jar''
        (''/opt/ci'' @ [LF] @ ''agent''))
     = Some (''/usr/bin/java -jar /opt/agent/agent.jar -jnlpUrl ''
             @ ''http://ci:8080/computer/worker-1/jenkins-agent.jnlp ''
             @ ''-jnlpCredentials admin:s3cret -workDir /opt/ci'')
   \<and> spec_parse_exec_start
       (service_content ''worker-1'' ''http://ci:8080'' ''admin'' ''s3cret'' ''/opt/agent/agent.jar''
          (''/opt/ci'' @ [LF] @ ''agent''))
     \<noteq> Some (exec_command ''worker-1'' ''http://ci:8080'' ''admin'' ''s3cret''
               ''/opt/agent/agent.jar'' (''/opt/ci'' @ [LF] @ ''agent''))"
  by (simp add: spec_parse_exec_start_def service_content_def exec_command_def)

text \<open>
  C8, amended. When the embedded command contains no line feed (that is, none of the agent
  name, server URL, user name, token, artifact path and work directory does), the unit
  file that \<^verbatim>\<open>create_linux_service\<close> writes, read back line by line, gives exactly
  the command it printed and embedded, built from the server URL without its trailing
  slash.
\<close>

theorem unit_file_round_trip:
  assumes "LF \<notin> set (exec_command n (strip_trailing_slash u0) usr tok jar wd)"
  shows "spec_parse_exec_start (service_content n (strip_trailing_slash u0) usr tok jar wd)
           = Some (exec_command n (strip_trailing_slash u0) usr tok jar wd)
       \<and> fst (create_linux_service w n u0 usr tok jar wd) ! 0
           = Print (exec_command n (strip_trailing_slash u0) usr tok jar wd)
       \<and> fst (create_linux_service w n u0 usr tok jar wd) ! 1
           = WriteFile (''/etc/systemd/system/'' @ n @ ''.service'')
               (service_content n (strip_trailing_slash u0) usr tok jar wd)"
proof -
  obtain t where t: "fst (create_linux_service w n u0 usr tok jar wd)
         = Print (exec_command n (strip_trailing_slash u0) usr tok jar wd)
           # WriteFile (''/etc/systemd/system/'' @ n @ ''.service'')
               (service_content n (strip_trailing_slash u0) usr tok jar wd)
           # t"
    using fst_create_linux_service by blast
  show ?thesis
    unfolding t using parse_service_content [OF assms] by simp
qed

theorem unit_file_round_trip_witness:
  "LF \<notin> set (exec_command ''worker-1'' (strip_trailing_slash ''http://ci:8080/'') ''admin'' ''s3cret''
                  ''/opt/agent/agent.jar'' ''/opt/agent'')
   \<and> spec_parse_exec_start
        (service_content ''worker-1'' (strip_trailing_slash ''http://ci:8080/'') ''admin'' ''s3cret''
           ''/opt/agent/agent.jar'' ''/opt/agent'')
       = Some (exec_command ''worker-1'' (strip_trailing_slash ''http://ci:8080/'') ''admin''
                 ''s3cret'' ''/opt/agent/agent.jar'' ''/opt/agent'')"
proof -
  have h: "LF \<notin> set (exec_command ''worker-1'' (strip_trailing_slash ''http://ci:8080/'') ''admin''
                         ''s3cret'' ''/opt/agent/agent.jar'' ''/opt/agent'')"
    by (simp add: exec_command_def strip_trailing_slash_def endswith_slash_def)
  from h unit_file_round_trip [OF h, of linux_host] show ?thesis by blast
qed

end
